theory Spec2Isabelle
  imports Complex_Main "HOL-Library.Log_Nat" "HOL-Library.AList"
begin

section \<open>JavaScript numbers\<close>

text \<open>
  A JavaScript number is an IEEE 754 double: a finite double is kept as the real number
  it denotes, next to the three special values. The two zeros are one value here: the
  program never tells them apart (\<open>toFixed\<close> prints both as 0, and no division of the
  program has a zero denominator with a non-zero numerator before the animation ends).
  Every arithmetic operation computes the exact result and rounds it to the nearest
  double, ties to even, as IEEE 754 prescribes.
\<close>

datatype jsnum = NaN | PInf | NInf | Fin real

definition round_half_even :: "real \<Rightarrow> int" where
  "round_half_even x =
     (let f = \<lfloor>x\<rfloor>; d = x - of_int f
      in if d < 1 / 2 then f else if 1 / 2 < d then f + 1 else if even f then f else f + 1)"

text \<open>The binary exponent \<open>\<lfloor>log\<^sub>2 a\<rfloor>\<close> of a positive number, computed on integers.\<close>

definition binary_exponent :: "real \<Rightarrow> int" where
  "binary_exponent a =
     (if 1 \<le> a then bitlen \<lfloor>a\<rfloor> - 1 else - bitlen (\<lceil>1 / a\<rceil> - 1))"

text \<open>
  Rounding to double precision: 53 significant bits, the smallest exponent -1022
  (below it the spacing stays at \<open>2\<^sup>-\<^sup>1\<^sup>0\<^sup>7\<^sup>4\<close>: subnormal numbers), overflow to
  an infinity when the rounded magnitude reaches \<open>2\<^sup>1\<^sup>0\<^sup>2\<^sup>4\<close> (binary exponent 1024).
\<close>

definition to_double :: "real \<Rightarrow> jsnum" where
  "to_double x =
     (if x = 0 then Fin 0
      else let a = \<bar>x\<bar>;
               e = max (binary_exponent a) (- 1022);
               u = 2 powi (e - 52);
               r = of_int (round_half_even (a / u)) * u
           in if 1024 \<le> binary_exponent r then (if 0 < x then PInf else NInf)
              else Fin (if 0 < x then r else - r))"

fun jneg :: "jsnum \<Rightarrow> jsnum" where
  "jneg NaN = NaN"
| "jneg PInf = NInf"
| "jneg NInf = PInf"
| "jneg (Fin a) = Fin (- a)"

fun jadd :: "jsnum \<Rightarrow> jsnum \<Rightarrow> jsnum" where
  "jadd NaN _ = NaN"
| "jadd _ NaN = NaN"
| "jadd PInf NInf = NaN"
| "jadd NInf PInf = NaN"
| "jadd PInf _ = PInf"
| "jadd NInf _ = NInf"
| "jadd _ PInf = PInf"
| "jadd _ NInf = NInf"
| "jadd (Fin a) (Fin b) = to_double (a + b)"

definition jsub :: "jsnum \<Rightarrow> jsnum \<Rightarrow> jsnum" where
  "jsub x y = jadd x (jneg y)"

text \<open>The sign of a product or quotient with an infinite operand.\<close>

definition signed_inf :: "bool \<Rightarrow> jsnum" where
  "signed_inf positive = (if positive then PInf else NInf)"

fun jmul :: "jsnum \<Rightarrow> jsnum \<Rightarrow> jsnum" where
  "jmul NaN _ = NaN"
| "jmul _ NaN = NaN"
| "jmul PInf PInf = PInf"
| "jmul PInf NInf = NInf"
| "jmul NInf PInf = NInf"
| "jmul NInf NInf = PInf"
| "jmul PInf (Fin b) = (if b = 0 then NaN else signed_inf (0 < b))"
| "jmul NInf (Fin b) = (if b = 0 then NaN else signed_inf (b < 0))"
| "jmul (Fin a) PInf = (if a = 0 then NaN else signed_inf (0 < a))"
| "jmul (Fin a) NInf = (if a = 0 then NaN else signed_inf (a < 0))"
| "jmul (Fin a) (Fin b) = to_double (a * b)"

fun jdiv :: "jsnum \<Rightarrow> jsnum \<Rightarrow> jsnum" where
  "jdiv NaN _ = NaN"
| "jdiv _ NaN = NaN"
| "jdiv PInf PInf = NaN"
| "jdiv PInf NInf = NaN"
| "jdiv NInf PInf = NaN"
| "jdiv NInf NInf = NaN"
| "jdiv PInf (Fin b) = signed_inf (0 \<le> b)"
| "jdiv NInf (Fin b) = signed_inf (b < 0)"
| "jdiv (Fin a) PInf = Fin 0"
| "jdiv (Fin a) NInf = Fin 0"
| "jdiv (Fin a) (Fin b) =
     (if b = 0 then (if a = 0 then NaN else signed_inf (0 < a)) else to_double (a / b))"

text \<open>\<open>x < y\<close>: false as soon as one side is \<open>NaN\<close>.\<close>

fun jlt :: "jsnum \<Rightarrow> jsnum \<Rightarrow> bool" where
  "jlt NaN _ = False"
| "jlt _ NaN = False"
| "jlt PInf _ = False"
| "jlt _ NInf = False"
| "jlt NInf _ = True"
| "jlt _ PInf = True"
| "jlt (Fin a) (Fin b) = (a < b)"

text \<open>\<open>x === y\<close> on numbers: \<open>NaN\<close> equals nothing, itself included.\<close>

definition strict_eq :: "jsnum \<Rightarrow> jsnum \<Rightarrow> bool" where
  "strict_eq x y = (x \<noteq> NaN \<and> y \<noteq> NaN \<and> x = y)"

definition isNaN :: "jsnum \<Rightarrow> bool" where
  "isNaN x = (x = NaN)"

text \<open>\<open>Math.min(x, y)\<close>: \<open>NaN\<close> when one argument is, the smaller one otherwise.\<close>

definition Math_min :: "jsnum \<Rightarrow> jsnum \<Rightarrow> jsnum" where
  "Math_min x y = (if x = NaN \<or> y = NaN then NaN else if jlt y x then y else x)"

text \<open>
  \<open>Math.pow(2, y)\<close>, the only power the program takes. The language fixes the special
  cases (\<open>Math.pow(x, 0)\<close> is 1) and leaves the rest to an approximation; the model
  takes the correctly rounded value. An integral exponent is computed with integer
  powers, so that the value can be evaluated.
\<close>

fun Math_pow2 :: "jsnum \<Rightarrow> jsnum" where
  "Math_pow2 NaN = NaN"
| "Math_pow2 PInf = PInf"
| "Math_pow2 NInf = Fin 0"
| "Math_pow2 (Fin y) =
     (if y = 0 then Fin 1
      else if of_int \<lfloor>y\<rfloor> = y then to_double (2 powi \<lfloor>y\<rfloor>)
      else to_double (2 powr y))"

section \<open>The easing functions\<close>

text \<open>
  The eight entries of \<open>this.easingFunctions\<close>, operation by operation as the source
  writes them (\<open>2 * t * t\<close> is \<open>(2 * t) * t\<close>; \<open>--t\<close> decrements \<open>t\<close> before
  its three uses).
\<close>

definition easeLinear :: "jsnum \<Rightarrow> jsnum" where
  "easeLinear t = t"

definition easeInQuad :: "jsnum \<Rightarrow> jsnum" where
  "easeInQuad t = jmul t t"

definition easeOutQuad :: "jsnum \<Rightarrow> jsnum" where
  "easeOutQuad t = jmul t (jsub (Fin 2) t)"

definition easeInOutQuad :: "jsnum \<Rightarrow> jsnum" where
  "easeInOutQuad t =
     (if jlt t (Fin (1 / 2)) then jmul (jmul (Fin 2) t) t
      else jadd (Fin (- 1)) (jmul (jsub (Fin 4) (jmul (Fin 2) t)) t))"

definition easeInCubic :: "jsnum \<Rightarrow> jsnum" where
  "easeInCubic t = jmul (jmul t t) t"

definition easeOutCubic :: "jsnum \<Rightarrow> jsnum" where
  "easeOutCubic t = (let t' = jsub t (Fin 1) in jadd (jmul (jmul t' t') t') (Fin 1))"

definition easeInOutCubic :: "jsnum \<Rightarrow> jsnum" where
  "easeInOutCubic t =
     (if jlt t (Fin (1 / 2)) then jmul (jmul (jmul (Fin 4) t) t) t
      else jadd (jmul (jmul (jsub t (Fin 1)) (jsub (jmul (Fin 2) t) (Fin 2)))
                      (jsub (jmul (Fin 2) t) (Fin 2)))
                (Fin 1))"

definition easeOutExpo :: "jsnum \<Rightarrow> jsnum" where
  "easeOutExpo t =
     (if strict_eq t (Fin 1) then Fin 1
      else jsub (Fin 1) (Math_pow2 (jmul (Fin (- 10)) t)))"

section \<open>Strings\<close>

text \<open>
  A string is a list of characters. The character classes are those of the regular
  expressions of the source: \<open>[0-9]\<close> (which is \<open>\d\<close>) and \<open>\w\<close>.
\<close>

definition isDigit :: "char \<Rightarrow> bool" where
  "isDigit c = (c \<in> set ''0123456789'')"

definition isLetter :: "char \<Rightarrow> bool" where
  "isLetter c = (c \<in> set ''abcdefghijklmnopqrstuvwxyzABCDEFGHIJKLMNOPQRSTUVWXYZ'')"

definition isWordChar :: "char \<Rightarrow> bool" where
  "isWordChar c = (isDigit c \<or> isLetter c \<or> c = CHR ''_'')"

definition digit_char :: "int \<Rightarrow> char" where
  "digit_char d = ''0123456789'' ! nat d"

definition digit_val :: "char \<Rightarrow> int" where
  "digit_val c = int (of_char c) - 48"

text \<open>The decimal digits of a non-negative integer, without leading zeros.\<close>

function digit_string :: "int \<Rightarrow> string" where
  "digit_string n =
     (if n < 10 then [digit_char n] else digit_string (n div 10) @ [digit_char (n mod 10)])"
  by pat_completeness auto
termination
  by (relation "measure nat") auto

declare digit_string.simps [simp del]

text \<open>The number a string of decimal digits denotes.\<close>

definition digits_val :: "string \<Rightarrow> int" where
  "digits_val ds = foldl (\<lambda>a c. 10 * a + digit_val c) 0 ds"

definition startsWith :: "string \<Rightarrow> string \<Rightarrow> bool" where
  "startsWith s p = (take (length p) s = p)"

definition endsWith :: "string \<Rightarrow> string \<Rightarrow> bool" where
  "endsWith s p = (length p \<le> length s \<and> drop (length s - length p) s = p)"

text \<open>\<open>s.includes(p)\<close>: \<open>p\<close> occurs in \<open>s\<close> as a substring.\<close>

fun str_includes :: "string \<Rightarrow> string \<Rightarrow> bool" where
  "str_includes [] p = (p = [])"
| "str_includes (c # s) p = (startsWith (c # s) p \<or> str_includes s p)"

text \<open>\<open>s.split(c)\<close> and \<open>parts.join(c)\<close> for a one-character separator.\<close>

fun split_on :: "char \<Rightarrow> string \<Rightarrow> string list" where
  "split_on c [] = [[]]"
| "split_on c (x # xs) =
     (if x = c then [] # split_on c xs
      else (case split_on c xs of p # ps \<Rightarrow> (x # p) # ps | [] \<Rightarrow> [[x]]))"

fun join_with :: "char \<Rightarrow> string list \<Rightarrow> string" where
  "join_with c [] = []"
| "join_with c [p] = p"
| "join_with c (p # q # ps) = p @ c # join_with c (q # ps)"

text \<open>
  \<open>String.prototype.trim\<close>: white space and line terminators are stripped from both
  ends (of the characters with a code below 256: tab, line feed, vertical tab, form
  feed, carriage return, space and the no-break space).
\<close>

definition isSpace :: "char \<Rightarrow> bool" where
  "isSpace c = (of_char c \<in> {9, 10, 11, 12, 13, 32, 160 :: nat})"

definition trim :: "string \<Rightarrow> string" where
  "trim s = rev (dropWhile isSpace (rev (dropWhile isSpace s)))"

section \<open>Exceptions\<close>

text \<open>
  The exceptions the program can raise. \<open>NotModelled\<close> is not one of them: it marks a
  separator whose regular expression lies outside the fragment interpreted below, and
  no statement about the program is drawn from it.
\<close>

datatype error = SyntaxError | RangeError | TypeError | NotModelled

section \<open>Number to string\<close>

text \<open>
  \<open>Number.prototype.toString\<close> for a finite double \<open>a \<ge> 10\<^sup>2\<^sup>1\<close> (the only place
  the program can reach it is \<open>toFixed\<close>): the shortest digit string \<open>s\<close>, of \<open>k\<close> digits,
  with \<open>s \<times> 10\<^sup>n\<^sup>-\<^sup>k\<close> rounding to \<open>a\<close>; the closest one when several have that
  length, the even one on a tie; written \<open>d.ddde+x\<close> with \<open>x = n - 1\<close>. For each length
  only the two multiples of \<open>10\<^sup>n\<^sup>-\<^sup>k\<close> around \<open>a\<close> can qualify.
\<close>

definition shortest_candidate :: "real \<Rightarrow> nat \<Rightarrow> nat \<Rightarrow> int option" where
  "shortest_candidate a nd k =
     (let p = 10 ^ (nd - k);
          lo = \<lfloor>a / p\<rfloor>;
          hi = lo + 1;
          ok_lo = (to_double (of_int lo * p) = Fin a);
          ok_hi = (to_double (of_int hi * p) = Fin a);
          d_lo = a - of_int lo * p;
          d_hi = of_int hi * p - a
      in if ok_lo \<and> ok_hi then
           Some (if d_lo < d_hi then lo else if d_hi < d_lo then hi else if even lo then lo else hi)
         else if ok_lo then Some lo
         else if ok_hi then Some hi
         else None)"

fun shortest_digits :: "real \<Rightarrow> nat \<Rightarrow> nat list \<Rightarrow> (int \<times> nat)" where
  "shortest_digits a nd [] = (\<lfloor>a\<rfloor>, nd)"
| "shortest_digits a nd (k # ks) =
     (case shortest_candidate a nd k of
        Some s \<Rightarrow> if s = 10 ^ k then (10 ^ (k - 1), nd + 1) else (s, nd)
      | None \<Rightarrow> shortest_digits a nd ks)"

definition toString_large :: "real \<Rightarrow> string" where
  "toString_large a =
     (let nd = length (digit_string \<lfloor>a\<rfloor>);
          (s, n) = shortest_digits a nd [1 ..< 18];
          ds = digit_string s
      in hd ds # (if tl ds = [] then [] else CHR ''.'' # tl ds)
         @ ''e+'' @ digit_string (int n - 1))"

text \<open>
  \<open>Number.prototype.toFixed\<close>. The range check on the digits comes first; \<open>NaN\<close> and
  the infinities print by name; a magnitude from \<open>10\<^sup>2\<^sup>1\<close> on prints as \<open>toString\<close>
  does; below it, \<open>n\<close> is the integer nearest to \<open>a \<times> 10\<^sup>f\<close>, the larger one of
  two, and its digits are padded with zeros to \<open>f + 1\<close> places and split by the point.
\<close>

definition fixed_digits :: "real \<Rightarrow> nat \<Rightarrow> string" where
  "fixed_digits a f =
     (let n = \<lfloor>a * 10 ^ f + 1 / 2\<rfloor>;
          m = digit_string n
      in if f = 0 then m
         else let m' = (if length m \<le> f then replicate (f + 1 - length m) CHR ''0'' @ m else m);
                  k = length m'
              in take (k - f) m' @ ''.'' @ drop (k - f) m')"

definition toFixed :: "jsnum \<Rightarrow> int \<Rightarrow> error + string" where
  "toFixed x f =
     (if f < 0 \<or> 100 < f then Inl RangeError
      else case x of
             NaN \<Rightarrow> Inr ''NaN''
           | PInf \<Rightarrow> Inr ''Infinity''
           | NInf \<Rightarrow> Inr ''-Infinity''
           | Fin v \<Rightarrow>
               Inr ((if v < 0 then ''-'' else [])
                    @ (if 10 ^ 21 \<le> \<bar>v\<bar> then toString_large \<bar>v\<bar> else fixed_digits \<bar>v\<bar> (nat f))))"

section \<open>Configuration\<close>

text \<open>
  \<open>this.settings\<close>. \<open>decimals\<close> is \<open>null\<close> (\<open>None\<close>: count the digits of the source
  text) or an integer.
\<close>

record config =
  duration :: jsnum
  easing :: string
  offset :: string
  once :: bool
  decimals :: "int option"
  separator :: string
  prefix :: string
  suffix :: string

definition defaults :: config where
  "defaults = \<lparr> duration = Fin 800, easing = ''easeOutExpo'', offset = ''0%'', once = False,
                 decimals = None, separator = '','', prefix = [], suffix = [] \<rparr>"

section \<open>formatNumber\<close>

text \<open>
  The replacement text of \<open>String.prototype.replace\<close> is a template: \<open>$$\<close> stands for
  a dollar sign, \<open>$&\<close> for the matched text, \<open>$`\<close> and \<open>$'\<close> for the text before and
  after the match, \<open>$1\<close> (or \<open>$01\<close>) for the first capture group. The expression of
  \<open>formatNumber\<close> has one capture group and matches the empty string, so \<open>$&\<close> is
  empty; a two-digit reference beyond the group count counts as a one-digit reference
  followed by a digit; every other dollar sign stands for itself.
\<close>

fun get_substitution :: "string \<Rightarrow> string \<Rightarrow> string \<Rightarrow> string \<Rightarrow> string" where
  "get_substitution before after capture [] = []"
| "get_substitution before after capture [c] = [c]"
| "get_substitution before after capture (c # d # t) =
     (if c \<noteq> CHR ''$'' then c # get_substitution before after capture (d # t)
      else if d = CHR ''$'' then CHR ''$'' # get_substitution before after capture t
      else if d = CHR ''&'' then get_substitution before after capture t
      else if d = CHR ''`'' then before @ get_substitution before after capture t
      else if d = CHR 0x27 then after @ get_substitution before after capture t
      else if d = CHR ''0''
        then (case t of
                e # t' \<Rightarrow>
                  if e = CHR ''1'' then capture @ get_substitution before after capture t'
                  else if e = CHR ''0'' then ''$00'' @ get_substitution before after capture t'
                  else CHR ''$'' # get_substitution before after capture (d # t)
              | [] \<Rightarrow> CHR ''$'' # get_substitution before after capture (d # t))
      else if d = CHR ''1'' then capture @ get_substitution before after capture t
      else CHR ''$'' # get_substitution before after capture (d # t))"

text \<open>
  \<open>/\B(?=(\d{3})+(?!\d))/\<close> at the position between \<open>before\<close> and \<open>after\<close>: no word
  boundary there (the characters on both sides are word characters, or neither is; a
  missing character is none), and what follows is a run of digits, three or a multiple
  of three of them, then no digit. The capture group holds the last three of the run.
\<close>

definition word_boundary :: "string \<Rightarrow> string \<Rightarrow> bool" where
  "word_boundary before after =
     ((before \<noteq> [] \<and> isWordChar (last before)) \<noteq> (after \<noteq> [] \<and> isWordChar (hd after)))"

definition thousands_position :: "string \<Rightarrow> string \<Rightarrow> bool" where
  "thousands_position before after =
     (\<not> word_boundary before after \<and>
      (let run = takeWhile isDigit after in run \<noteq> [] \<and> length run mod 3 = 0))"

text \<open>
  \<open>s.replace(/\B(?=(\d{3})+(?!\d))/g, sep)\<close>: every position of \<open>s\<close> is tried once, from
  the left (an empty match moves the search on by one character), and the template is
  expanded at each position that matches.
\<close>

fun insert_separators :: "string \<Rightarrow> string \<Rightarrow> string \<Rightarrow> string" where
  "insert_separators sep before [] = []"
| "insert_separators sep before (c # cs) =
     (if thousands_position before (c # cs)
      then get_substitution before (c # cs)
             (let run = takeWhile isDigit (c # cs) in drop (length run - 3) run) sep
      else [])
     @ c # insert_separators sep (before @ [c]) cs"

definition formatNumber :: "config \<Rightarrow> jsnum \<Rightarrow> int \<Rightarrow> bool \<Rightarrow> error + string" where
  "formatNumber settings number' decimals' hasComma' =
     (case toFixed number' decimals' of
        Inl e \<Rightarrow> Inl e
      | Inr formattedNumber \<Rightarrow>
          Inr (prefix settings
               @ (if hasComma'
                  then (case split_on CHR ''.'' formattedNumber of
                          p # ps \<Rightarrow> join_with CHR ''.'' (insert_separators (separator settings) [] p # ps)
                        | [] \<Rightarrow> [])
                  else formattedNumber)
               @ suffix settings))"

section \<open>parseValue\<close>

text \<open>
  \<open>new RegExp(this.settings.separator, 'g')\<close> reads the separator as a regular
  expression. The fragment interpreted here: a character that is not a syntax character
  stands for itself, and so do \<open>]\<close> and \<open>}\<close>; \<open>.\<close> stands for any character but a
  line terminator; a backslash before a character that is no letter and no digit makes
  it stand for itself; \<open>|\<close> separates alternatives. A pattern that ends in a backslash,
  and one with \<open>*\<close>, \<open>+\<close> or \<open>?\<close> at the start of an alternative, is a syntax error.
  Every other pattern is outside the fragment.
\<close>

datatype rx_atom = Lit char | AnyChar

fun parse_pattern :: "string \<Rightarrow> rx_atom list \<Rightarrow> rx_atom list list \<Rightarrow> error + rx_atom list list" where
  "parse_pattern [] cur alts = Inr (rev (rev cur # alts))"
| "parse_pattern (c # r) cur alts =
     (if c = CHR ''|'' then parse_pattern r [] (rev cur # alts)
      else if c = CHR ''.'' then parse_pattern r (AnyChar # cur) alts
      else if c = CHR 0x5C
        then (case r of
                [] \<Rightarrow> Inl SyntaxError
              | d # r' \<Rightarrow>
                  if isDigit d \<or> isLetter d then Inl NotModelled
                  else parse_pattern r' (Lit d # cur) alts)
      else if c \<in> set ''*+?'' then (if cur = [] then Inl SyntaxError else Inl NotModelled)
      else if c \<in> set ''()[{^$'' then Inl NotModelled
      else parse_pattern r (Lit c # cur) alts)"

definition RegExp :: "string \<Rightarrow> error + rx_atom list list" where
  "RegExp pattern = parse_pattern pattern [] []"

definition line_terminator :: "char \<Rightarrow> bool" where
  "line_terminator c = (of_char c \<in> {10, 13 :: nat})"

text \<open>
  Matching at the start of a string: the rest of the string after the match. The
  alternatives are tried in order and the first that matches is taken.
\<close>

fun match_atoms :: "rx_atom list \<Rightarrow> string \<Rightarrow> string option" where
  "match_atoms [] s = Some s"
| "match_atoms (a # as) [] = None"
| "match_atoms (Lit c # as) (x # xs) = (if x = c then match_atoms as xs else None)"
| "match_atoms (AnyChar # as) (x # xs) = (if line_terminator x then None else match_atoms as xs)"

fun match_alternatives :: "rx_atom list list \<Rightarrow> string \<Rightarrow> string option" where
  "match_alternatives [] s = None"
| "match_alternatives (alt # alts) s =
     (case match_atoms alt s of Some rest \<Rightarrow> Some rest | None \<Rightarrow> match_alternatives alts s)"

text \<open>
  \<open>s.replace(regex, '')\<close> with the \<open>g\<close> flag: matches are looked for from the left;
  the characters of a match are dropped and the search goes on behind it; an empty match
  drops nothing and moves the search on by one character. \<open>skip\<close> counts the characters
  of the current match still to drop.
\<close>

fun remove_matches :: "rx_atom list list \<Rightarrow> nat \<Rightarrow> string \<Rightarrow> string" where
  "remove_matches rx skip [] = []"
| "remove_matches rx (Suc skip) (x # xs) = remove_matches rx skip xs"
| "remove_matches rx 0 (x # xs) =
     (case match_alternatives rx (x # xs) of
        None \<Rightarrow> x # remove_matches rx 0 xs
      | Some rest \<Rightarrow>
          if length rest = length (x # xs) then x # remove_matches rx 0 xs
          else remove_matches rx (length xs - length rest) xs)"

text \<open>
  The test \<open>/^[-+]?[0-9]*\.?[0-9]+([eE][-+]?[0-9]+)?$/\<close>: an optional sign; digits, or
  digits (none allowed), a point and at least one digit; an optional exponent of
  \<open>e\<close> or \<open>E\<close>, an optional sign and at least one digit; nothing else.
\<close>

definition strip_sign :: "string \<Rightarrow> string" where
  "strip_sign s = (case s of [] \<Rightarrow> [] | c # r \<Rightarrow> if c = CHR ''-'' \<or> c = CHR ''+'' then r else s)"

definition exponent_format :: "string \<Rightarrow> bool" where
  "exponent_format r =
     (case r of
        [] \<Rightarrow> True
      | c # r' \<Rightarrow> (c = CHR ''e'' \<or> c = CHR ''E'') \<and> strip_sign r' \<noteq> [] \<and> list_all isDigit (strip_sign r'))"

definition number_format :: "string \<Rightarrow> bool" where
  "number_format s =
     (let m = strip_sign s;
          ip = takeWhile isDigit m;
          r = dropWhile isDigit m
      in case r of
           [] \<Rightarrow> ip \<noteq> []
         | c # r' \<Rightarrow>
             if c = CHR ''.'' then takeWhile isDigit r' \<noteq> [] \<and> exponent_format (dropWhile isDigit r')
             else ip \<noteq> [] \<and> exponent_format r)"

text \<open>
  \<open>parseFloat\<close> on a string of that format (the only strings the program passes to it):
  the number the decimal literal denotes, rounded to a double.
\<close>

definition exponent_val :: "string \<Rightarrow> int" where
  "exponent_val r =
     (case r of
        [] \<Rightarrow> 0
      | c # r' \<Rightarrow> (if take 1 r' = ''-'' then - digits_val (strip_sign r') else digits_val (strip_sign r')))"

definition decimal_value :: "string \<Rightarrow> real" where
  "decimal_value s =
     (let m = strip_sign s;
          ip = takeWhile isDigit m;
          r = dropWhile isDigit m;
          fp = (case r of [] \<Rightarrow> [] | c # r' \<Rightarrow> if c = CHR ''.'' then takeWhile isDigit r' else []);
          ex = (case r of [] \<Rightarrow> [] | c # r' \<Rightarrow> if c = CHR ''.'' then dropWhile isDigit r' else r);
          v = of_int (digits_val (ip @ fp)) * 10 powi (exponent_val ex - int (length fp))
      in if take 1 s = ''-'' then - v else v)"

definition parseFloat :: "string \<Rightarrow> jsnum" where
  "parseFloat s = to_double (decimal_value s)"

text \<open>\<open>s.match(/\.([0-9]+)/)\<close>: the digits behind the first point that has a digit behind it.\<close>

fun match_fraction :: "string \<Rightarrow> string option" where
  "match_fraction [] = None"
| "match_fraction (c # r) =
     (if c = CHR ''.'' \<and> takeWhile isDigit r \<noteq> [] then Some (takeWhile isDigit r)
      else match_fraction r)"

record parsed =
  number :: jsnum
  parsed_decimals :: int
  hasComma :: bool

definition parseValue :: "config \<Rightarrow> string \<Rightarrow> error + parsed option" where
  "parseValue settings v =
     (if v = [] then Inr None
      else
        let hasComma' = str_includes v (separator settings);
            cleanValue = v;
            cleanValue = (if prefix settings \<noteq> [] \<and> startsWith cleanValue (prefix settings)
                          then drop (length (prefix settings)) cleanValue else cleanValue);
            cleanValue = (if suffix settings \<noteq> [] \<and> endsWith cleanValue (suffix settings)
                          then take (length cleanValue - length (suffix settings)) cleanValue
                          else cleanValue)
        in case RegExp (separator settings) of
             Inl e \<Rightarrow> Inl e
           | Inr rx \<Rightarrow>
               let cleanValue = remove_matches rx 0 cleanValue
               in if number_format cleanValue
                  then Inr (Some \<lparr> number = parseFloat cleanValue,
                                   parsed_decimals =
                                     (case decimals settings of
                                        Some d \<Rightarrow> d
                                      | None \<Rightarrow> (case match_fraction cleanValue of
                                                  Some m \<Rightarrow> int (length m)
                                                | None \<Rightarrow> 0)),
                                   hasComma = hasComma' \<rparr>)
                  else Inr None)"

section \<open>The page and the instance\<close>

text \<open>
  An element is named by a number. Of an element the program reads and writes
  \<open>innerText\<close> and four \<open>dataset\<close> entries. The data set holds strings; the model
  keeps the values the program wrote: \<open>parseFloat\<close> of the string of a number is that
  number, a boolean is compared with \<open>'true'\<close>, and \<open>parseInt\<close> of the string of an
  integer is \<open>parseInt_String\<close> below. An entry never written is \<open>None\<close>.
\<close>

type_synonym element = nat

record node =
  innerText :: string
  counterupValue :: "string option"
  counterupNumber :: "jsnum option"
  counterupDecimals :: "int option"
  counterupHasCommas :: "bool option"

text \<open>
  The closure of one call of \<open>animate\<close>: the constants it captures and \<open>startTime\<close>,
  which its frame callback \<open>step\<close> assigns on the first frame. \<open>easingFn\<close> is whatever
  the lookup in \<open>this.easingFunctions\<close> gave, as the call \<open>easingFn(progress)\<close> sees
  it: it raises an exception or returns a value, kept as the number the following
  multiplication converts it to.
\<close>

record session =
  anim_element :: element
  targetValue :: jsnum
  anim_decimals :: int
  anim_hasComma :: bool
  startValue :: jsnum
  startTime :: "jsnum option"
  anim_duration :: jsnum
  easingFn :: "jsnum \<Rightarrow> error + jsnum"

datatype warning =
    NoElementsFound
  | ElementIsEmpty element
  | CouldNotParse string
  | InvalidValues element
  | Uncaught error

text \<open>
  The fields of the instance (\<open>settings\<close>, \<open>elements\<close>, \<open>observers\<close>, \<open>animations\<close>,
  \<open>elementState\<close>) and what it acts on: the elements of the document, the browser's
  list of animation frame requests (a request is the closure that will be called, under
  the handle \<open>requestAnimationFrame\<close> returned), the intersection observers created (each
  with the element its callback captured, and the element it observes until it is
  disconnected), and the console. \<open>animations\<close> is a \<open>Map\<close>: an association list in
  insertion order, a key at most once.
\<close>

record state =
  settings :: config
  elements :: "element list"
  observers :: "nat list"
  animations :: "(element \<times> nat) list"
  elementState :: "element \<rightharpoonup> bool"
  document :: "element \<Rightarrow> node"
  raf_pending :: "nat \<rightharpoonup> session"
  raf_next :: nat
  io_callback :: "nat \<rightharpoonup> element"
  io_observing :: "nat \<rightharpoonup> element"
  io_next :: nat
  console :: "warning list"

definition set_innerText :: "element \<Rightarrow> string \<Rightarrow> state \<Rightarrow> state" where
  "set_innerText e text st = st\<lparr> document := (document st)(e := (document st e)\<lparr> innerText := text \<rparr>) \<rparr>"

definition warn :: "warning \<Rightarrow> state \<Rightarrow> state" where
  "warn w st = st\<lparr> console := console st @ [w] \<rparr>"

definition requestAnimationFrame :: "session \<Rightarrow> state \<Rightarrow> nat \<times> state" where
  "requestAnimationFrame callback st =
     (raf_next st, st\<lparr> raf_pending := (raf_pending st)(raf_next st \<mapsto> callback),
                        raf_next := Suc (raf_next st) \<rparr>)"

definition cancelAnimationFrame :: "nat \<Rightarrow> state \<Rightarrow> state" where
  "cancelAnimationFrame animId st = st\<lparr> raf_pending := (raf_pending st)(animId := None) \<rparr>"

section \<open>The easing lookup\<close>

text \<open>
  \<open>this.easingFunctions[this.settings.easing] || this.easingFunctions.easeOutExpo\<close>.
  \<open>easingFunctions\<close> is an object literal: a name that is none of its eight keys is
  looked up in \<open>Object.prototype\<close>, and only a name found in neither gives
  \<open>undefined\<close> and so the fallback. The members of \<open>Object.prototype\<close>, called as
  \<open>easingFn(progress)\<close> (no \<open>this\<close>, a number as argument): \<open>constructor\<close> is \<open>Object\<close>
  and wraps the number; \<open>toString\<close> returns \<open>'[object Undefined]'\<close>, which is \<open>NaN\<close>
  as a number; \<open>isPrototypeOf\<close> returns \<open>false\<close>, which is 0; the others convert
  \<open>this\<close> to an object and raise a \<open>TypeError\<close>; \<open>__proto__\<close> is an object and not a
  function, so that calling it raises a \<open>TypeError\<close>.
\<close>

definition easingFunctions :: "string \<Rightarrow> (jsnum \<Rightarrow> jsnum) option" where
  "easingFunctions name =
     (if name = ''easeLinear'' then Some easeLinear
      else if name = ''easeInQuad'' then Some easeInQuad
      else if name = ''easeOutQuad'' then Some easeOutQuad
      else if name = ''easeInOutQuad'' then Some easeInOutQuad
      else if name = ''easeInCubic'' then Some easeInCubic
      else if name = ''easeOutCubic'' then Some easeOutCubic
      else if name = ''easeInOutCubic'' then Some easeInOutCubic
      else if name = ''easeOutExpo'' then Some easeOutExpo
      else None)"

definition Object_prototype :: "string \<Rightarrow> (jsnum \<Rightarrow> error + jsnum) option" where
  "Object_prototype name =
     (if name = ''constructor'' then Some (\<lambda>t. Inr t)
      else if name = ''toString'' then Some (\<lambda>t. Inr NaN)
      else if name = ''isPrototypeOf'' then Some (\<lambda>t. Inr (Fin 0))
      else if name \<in> set [''toLocaleString'', ''valueOf'', ''hasOwnProperty'',
                          ''propertyIsEnumerable'', ''__defineGetter__'', ''__defineSetter__'',
                          ''__lookupGetter__'', ''__lookupSetter__'', ''__proto__'']
        then Some (\<lambda>t. Inl TypeError)
      else None)"

definition lookup_easing :: "string \<Rightarrow> jsnum \<Rightarrow> error + jsnum" where
  "lookup_easing name =
     (case easingFunctions name of
        Some f \<Rightarrow> (\<lambda>t. Inr (f t))
      | None \<Rightarrow>
          (case Object_prototype name of
             Some g \<Rightarrow> g
           | None \<Rightarrow> (\<lambda>t. Inr (easeOutExpo t))))"

section \<open>animate, step and cancelAnimation\<close>

definition cancelAnimation :: "element \<Rightarrow> state \<Rightarrow> state" where
  "cancelAnimation e st =
     (case map_of (animations st) e of
        None \<Rightarrow> st
      | Some animId \<Rightarrow>
          (cancelAnimationFrame animId st)\<lparr> animations := AList.delete e (animations st) \<rparr>)"

text \<open>
  The frame callback. It is the closure \<open>c\<close> called with a time stamp; an exception
  leaves the function before anything is written.
\<close>

definition step :: "session \<Rightarrow> jsnum \<Rightarrow> state \<Rightarrow> error + state" where
  "step c timestamp st =
     (let startTime' = (case startTime c of None \<Rightarrow> timestamp | Some t \<Rightarrow> t);
          progress = Math_min (Fin 1) (jdiv (jsub timestamp startTime') (anim_duration c))
      in case easingFn c progress of
           Inl e \<Rightarrow> Inl e
         | Inr easedProgress \<Rightarrow>
             let currentValue =
                   jadd (startValue c) (jmul easedProgress (jsub (targetValue c) (startValue c)))
             in case formatNumber (settings st) currentValue (anim_decimals c) (anim_hasComma c) of
                  Inl e \<Rightarrow> Inl e
                | Inr text \<Rightarrow>
                    let st1 = set_innerText (anim_element c) text st
                    in if jlt progress (Fin 1)
                       then let (animId, st2) =
                                  requestAnimationFrame (c\<lparr> startTime := Some startTime' \<rparr>) st1
                            in Inr (st2\<lparr> animations :=
                                          AList.update (anim_element c) animId (animations st2) \<rparr>)
                       else case formatNumber (settings st1) (targetValue c) (anim_decimals c)
                                   (anim_hasComma c) of
                              Inl e \<Rightarrow> Inl e
                            | Inr final \<Rightarrow>
                                Inr ((set_innerText (anim_element c) final st1)
                                       \<lparr> animations := AList.delete (anim_element c) (animations st1) \<rparr>))"

text \<open>
  \<open>parseInt(String(d))\<close> for an integer \<open>d\<close>: the string of an integer below \<open>10\<^sup>2\<^sup>1\<close>
  in magnitude is its decimal digits and \<open>parseInt\<close> reads them back; from \<open>10\<^sup>2\<^sup>1\<close> on
  the string has the exponent form \<open>d.ddde+x\<close>, of which \<open>parseInt\<close> reads the sign and the
  first digit.
\<close>

definition parseInt_String :: "int \<Rightarrow> int" where
  "parseInt_String d =
     (if \<bar>d\<bar> < 10 ^ 21 then d
      else sgn d * digit_val (hd (toString_large (of_int \<bar>d\<bar>))))"

definition animate :: "element \<Rightarrow> state \<Rightarrow> state" where
  "animate e st =
     (let st1 = cancelAnimation e st;
          targetValue' = (case counterupNumber (document st1 e) of None \<Rightarrow> NaN | Some x \<Rightarrow> x);
          decimals' = counterupDecimals (document st1 e);
          hasComma' = (counterupHasCommas (document st1 e) = Some True)
      in case decimals' of
           None \<Rightarrow> warn (InvalidValues e) st1
         | Some d \<Rightarrow>
             if isNaN targetValue' then warn (InvalidValues e) st1
             else
               let c = \<lparr> anim_element = e, targetValue = targetValue',
                         anim_decimals = parseInt_String d,
                         anim_hasComma = hasComma', startValue = Fin 0, startTime = None,
                         anim_duration = duration (settings st1),
                         easingFn = lookup_easing (easing (settings st1)) \<rparr>;
                   (animId, st2) = requestAnimationFrame c st1
               in st2\<lparr> animations := AList.update e animId (animations st2) \<rparr>)"

text \<open>
  The browser runs a pending request: the request leaves the list, then its callback is
  called; an exception of the callback is reported on the console. A handle that is not
  pending (never given out, already run, or cancelled) runs nothing.
\<close>

definition run_frame :: "nat \<Rightarrow> jsnum \<Rightarrow> state \<Rightarrow> state" where
  "run_frame animId timestamp st =
     (case raf_pending st animId of
        None \<Rightarrow> st
      | Some c \<Rightarrow>
          let st1 = cancelAnimationFrame animId st
          in case step c timestamp st1 of
               Inl e \<Rightarrow> warn (Uncaught e) st1
             | Inr st2 \<Rightarrow> st2)"

section \<open>init and the visibility callback\<close>

text \<open>
  \<open>rootMargin: this.settings.offset + ' 0px'\<close> must be one to four lengths in pixels
  or percent, or the constructor of the observer raises an exception. The model reads
  the lengths as separated by spaces and reports any other margin as outside it.
\<close>

definition css_length :: "string \<Rightarrow> bool" where
  "css_length t =
     ((endsWith t ''%'' \<and> number_format (take (length t - 1) t)) \<or>
      (endsWith t ''px'' \<and> number_format (take (length t - 2) t)))"

definition rootMargin_modelled :: "string \<Rightarrow> bool" where
  "rootMargin_modelled m =
     (let ts = filter (\<lambda>t. t \<noteq> []) (split_on CHR '' '' m)
      in length ts \<le> 4 \<and> list_all css_length ts)"

text \<open>
  One round of the \<open>forEach\<close> of \<open>init\<close>, for one element: the state it leaves, and the
  exception if it raised one.
\<close>

definition init_element :: "element \<Rightarrow> state \<Rightarrow> state \<times> error option" where
  "init_element e st =
     (let text = trim (innerText (document st e))
      in if text = [] then (warn (ElementIsEmpty e) st, None)
         else case parseValue (settings st) text of
                Inl err \<Rightarrow> (st, Some err)
              | Inr None \<Rightarrow> (warn (CouldNotParse text) st, None)
              | Inr (Some parsedData) \<Rightarrow>
                  let st1 = st\<lparr> document := (document st)(e := (document st e)
                                     \<lparr> counterupValue := Some text,
                                       counterupNumber := Some (number parsedData),
                                       counterupDecimals := Some (parsed_decimals parsedData),
                                       counterupHasCommas := Some (hasComma parsedData) \<rparr>),
                                   elementState := (elementState st)(e \<mapsto> False) \<rparr>
                  in if \<not> rootMargin_modelled (offset (settings st1) @ '' 0px'')
                     then (st1, Some NotModelled)
                     else
                       let observer = io_next st1
                       in (st1\<lparr> io_callback := (io_callback st1)(observer \<mapsto> e),
                                 io_observing := (io_observing st1)(observer \<mapsto> e),
                                 io_next := Suc observer,
                                 observers := observers st1 @ [observer] \<rparr>, None))"

fun init_elements :: "element list \<Rightarrow> state \<Rightarrow> state \<times> error option" where
  "init_elements [] st = (st, None)"
| "init_elements (e # es) st =
     (case init_element e st of
        (st', Some err) \<Rightarrow> (st', Some err)
      | (st', None) \<Rightarrow> init_elements es st')"

definition init :: "state \<Rightarrow> state \<times> error option" where
  "init st = init_elements (elements st) st"

text \<open>
  The callback of the observer \<open>observer\<close>, for one entry of \<open>entries\<close> with
  \<open>isIntersecting = currentlyVisible\<close>; \<open>element\<close> is the one the callback captured.
\<close>

definition on_intersection :: "nat \<Rightarrow> bool \<Rightarrow> state \<Rightarrow> state" where
  "on_intersection observer currentlyVisible st =
     (case io_callback st observer of
        None \<Rightarrow> st
      | Some e \<Rightarrow>
          let wasVisible = (elementState st e = Some True);
              st1 = st\<lparr> elementState := (elementState st)(e \<mapsto> currentlyVisible) \<rparr>
          in if currentlyVisible
             then let st2 = animate e st1
                  in if once (settings st2)
                     then st2\<lparr> io_observing := (io_observing st2)(observer := None),
                               observers := filter (\<lambda>obs. obs \<noteq> observer) (observers st2) \<rparr>
                     else st2
             else if wasVisible \<and> \<not> currentlyVisible
             then let st2 = cancelAnimation e st1
                  in if \<not> once (settings st2) then set_innerText e ''0'' st2 else st2
             else st1)"

section \<open>The public methods\<close>

text \<open>The options object of the constructor and of \<open>updateOptions\<close>: the keys it has.\<close>

record options =
  opt_duration :: "jsnum option"
  opt_easing :: "string option"
  opt_offset :: "string option"
  opt_once :: "bool option"
  opt_decimals :: "int option option"
  opt_separator :: "string option"
  opt_prefix :: "string option"
  opt_suffix :: "string option"

definition no_options :: options where
  "no_options = \<lparr> opt_duration = None, opt_easing = None, opt_offset = None, opt_once = None,
                   opt_decimals = None, opt_separator = None, opt_prefix = None,
                   opt_suffix = None \<rparr>"

text \<open>\<open>Object.assign({}, base, options)\<close>.\<close>

definition assign :: "config \<Rightarrow> options \<Rightarrow> config" where
  "assign base opts =
     \<lparr> duration = (case opt_duration opts of Some v \<Rightarrow> v | None \<Rightarrow> duration base),
       easing = (case opt_easing opts of Some v \<Rightarrow> v | None \<Rightarrow> easing base),
       offset = (case opt_offset opts of Some v \<Rightarrow> v | None \<Rightarrow> offset base),
       once = (case opt_once opts of Some v \<Rightarrow> v | None \<Rightarrow> once base),
       decimals = (case opt_decimals opts of Some v \<Rightarrow> v | None \<Rightarrow> decimals base),
       separator = (case opt_separator opts of Some v \<Rightarrow> v | None \<Rightarrow> separator base),
       prefix = (case opt_prefix opts of Some v \<Rightarrow> v | None \<Rightarrow> prefix base),
       suffix = (case opt_suffix opts of Some v \<Rightarrow> v | None \<Rightarrow> suffix base) \<rparr>"

text \<open>
  The constructor, on a page \<open>page\<close> with nothing requested and nothing observed yet;
  \<open>selected\<close> are the elements the selector gave.
\<close>

definition CounterUp :: "element list \<Rightarrow> options \<Rightarrow> (element \<Rightarrow> node) \<Rightarrow> state \<times> error option" where
  "CounterUp selected opts page =
     (let st = \<lparr> settings = assign defaults opts, elements = selected, observers = [],
                  animations = [], elementState = Map.empty, document = page,
                  raf_pending = Map.empty, raf_next = 0, io_callback = Map.empty,
                  io_observing = Map.empty, io_next = 0, console = [] \<rparr>
      in if elements st = [] then (warn NoElementsFound st, None) else init st)"

definition reset :: "state \<Rightarrow> state" where
  "reset st =
     (let st1 = fold (\<lambda>(element, animId). cancelAnimationFrame animId) (animations st) st;
          st2 = st1\<lparr> animations := [], elementState := Map.empty \<rparr>;
          st3 = fold (\<lambda>observer s. s\<lparr> io_observing := (io_observing s)(observer := None) \<rparr>)
                  (observers st2) st2;
          st4 = st3\<lparr> observers := [] \<rparr>
      in fold (\<lambda>e s. case counterupValue (document s e) of
                        None \<Rightarrow> s
                      | Some v \<Rightarrow> if v = [] then s else set_innerText e v s)
           (elements st4) st4)"

definition updateOptions :: "options \<Rightarrow> state \<Rightarrow> state \<times> error option" where
  "updateOptions opts st = init (reset (st\<lparr> settings := assign (settings st) opts \<rparr>))"

definition restart :: "state \<Rightarrow> state \<times> error option" where
  "restart st = init (reset st)"

definition replay :: "state \<Rightarrow> state" where
  "replay st = fold (\<lambda>e s. animate e (set_innerText e ''0'' s)) (elements st) st"

definition destroy :: "state \<Rightarrow> state" where
  "destroy st = (reset st)\<lparr> elements := [] \<rparr>"

text \<open>
  The states an instance and its page go through: the constructor returns (or raises),
  then the browser runs frame requests and delivers intersection entries to the
  observers the instance created, and the page's script calls the public methods.
\<close>

inductive reachable :: "state \<Rightarrow> bool" where
  constructed: "reachable (fst (CounterUp selected opts page))"
| frame: "reachable st \<Longrightarrow> reachable (run_frame animId timestamp st)"
| intersection: "reachable st \<Longrightarrow> reachable (on_intersection observer visible st)"
| updated: "reachable st \<Longrightarrow> reachable (fst (updateOptions opts st))"
| restarted: "reachable st \<Longrightarrow> reachable (fst (restart st))"
| replayed: "reachable st \<Longrightarrow> reachable (replay st)"
| destroyed: "reachable st \<Longrightarrow> reachable (destroy st)"

section \<open>Notions the statements use\<close>

text \<open>A real number is exact when it is a double: rounding leaves it as it is.\<close>

definition exact :: "real \<Rightarrow> bool" where
  "exact x = (to_double x = Fin x)"

text \<open>
  The frame requests of an element that the scheduler still holds: the live sessions
  of the element.
\<close>

definition pending_for :: "state \<Rightarrow> element \<Rightarrow> nat set" where
  "pending_for st e = {animId. \<exists>c. raf_pending st animId = Some c \<and> anim_element c = e}"

text \<open>
  What holds between the scheduler's requests and the map \<open>animations\<close> of an instance:
  a pending request is the one \<open>animations\<close> holds for its element, and identifiers are
  handed out in increasing order.
\<close>

definition one_session :: "state \<Rightarrow> bool" where
  "one_session st =
     ((\<forall>animId c. raf_pending st animId = Some c \<longrightarrow>
          map_of (animations st) (anim_element c) = Some animId) \<and>
      (\<forall>animId c. raf_pending st animId = Some c \<longrightarrow> animId < raf_next st) \<and>
      (\<forall>e animId. map_of (animations st) e = Some animId \<longrightarrow> animId < raf_next st) \<and>
      (\<forall>e animId c. map_of (animations st) e = Some animId \<and> raf_pending st animId = Some c \<longrightarrow>
          anim_element c = e))"

text \<open>
  A page whose elements all read \<open>1,500\<close>, and the instance built on its element 0.
\<close>

definition example_page :: "element \<Rightarrow> node" where
  "example_page e = \<lparr> innerText = ''1,500'', counterupValue = None, counterupNumber = None,
                       counterupDecimals = None, counterupHasCommas = None \<rparr>"

definition example_instance :: "options \<Rightarrow> state" where
  "example_instance opts = fst (CounterUp [0] opts example_page)"

text \<open>
  The scheduler running the pending request of an element, once for each of the
  timestamps given; nothing runs once the element has no request left.
\<close>

fun deliver :: "element \<Rightarrow> jsnum list \<Rightarrow> state \<Rightarrow> state" where
  "deliver e [] st = st"
| "deliver e (t # ts) st =
     deliver e ts (case map_of (animations st) e of
                     None \<Rightarrow> st
                   | Some animId \<Rightarrow> run_frame animId t st)"





definition proto_options :: options where
  "proto_options = no_options\<lparr> opt_easing := Some ''__proto__'' \<rparr>"

definition bogus_options :: options where
  "bogus_options = no_options\<lparr> opt_easing := Some ''bogus'' \<rparr>"





text \<open>
  Rounding half away from zero to \<open>d\<close> fraction digits, as the specification words it:
  the magnitude of the rounded value, counted in units of the last digit. It is the
  integer nearest to \<open>|x| \<times> 10\<^sup>d\<close>, the larger of two.
\<close>

definition round_half_away :: "real \<Rightarrow> nat \<Rightarrow> int" where
  "round_half_away x d = \<lfloor>\<bar>x\<bar> * 10 ^ d + 1 / 2\<rfloor>"

text \<open>
  The last \<open>d\<close> decimal digits of a non-negative integer, with leading zeros.
\<close>

fun fraction_digits :: "nat \<Rightarrow> int \<Rightarrow> string" where
  "fraction_digits 0 n = []"
| "fraction_digits (Suc d) n = fraction_digits d (n div 10) @ [digit_char (n mod 10)]"

text \<open>
  The separator inserted every three digits, counted leftward from the end of the
  integer part.
\<close>

function group_by_three :: "string \<Rightarrow> string \<Rightarrow> string" where
  "group_by_three sep ds =
     (if length ds \<le> 3 then ds
      else group_by_three sep (take (length ds - 3) ds) @ sep @ drop (length ds - 3) ds)"
  by pat_completeness auto
termination
  by (relation "measure (\<lambda>(sep, ds). length ds)") auto

declare group_by_three.simps [simp del]

text \<open>
  The rendering the specification describes: the value rounded half away from zero to
  \<open>d\<close> fraction digits, a negative value with its sign (also when it rounds to zero), the
  integer part grouped on request, and the result between prefix and suffix.
\<close>

definition spec_format :: "config \<Rightarrow> real \<Rightarrow> nat \<Rightarrow> bool \<Rightarrow> string" where
  "spec_format cfg x d grouped =
     (let n = round_half_away x d;
          whole = digit_string (n div 10 ^ d);
          body = (if x < 0 then ''-'' else [])
                 @ (if grouped then group_by_three (separator cfg) whole else whole)
                 @ (if d = 0 then [] else CHR ''.'' # fraction_digits d n)
      in prefix cfg @ body @ suffix cfg)"

text \<open>
  The same grouping read from the left: a separator follows a digit when three digits,
  or a multiple of three, come after it.
\<close>

fun separated :: "string \<Rightarrow> string \<Rightarrow> string" where
  "separated sep [] = []"
| "separated sep (c # cs) =
     c # (if cs \<noteq> [] \<and> length cs mod 3 = 0 then sep else []) @ separated sep cs"

text \<open>
  The text \<open>parseValue\<close> passes to \<open>parseFloat\<close>: the value without prefix and suffix and
  without the matches of the separator. \<open>source_value\<close> is the number this decimal
  denotes, before any rounding to a double.
\<close>

definition source_text :: "config \<Rightarrow> string \<Rightarrow> string" where
  "source_text cfg v =
     (let cleanValue = v;
          cleanValue = (if prefix cfg \<noteq> [] \<and> startsWith cleanValue (prefix cfg)
                        then drop (length (prefix cfg)) cleanValue else cleanValue);
          cleanValue = (if suffix cfg \<noteq> [] \<and> endsWith cleanValue (suffix cfg)
                        then take (length cleanValue - length (suffix cfg)) cleanValue
                        else cleanValue)
      in case RegExp (separator cfg) of
           Inl e \<Rightarrow> []
         | Inr rx \<Rightarrow> remove_matches rx 0 cleanValue)"

definition source_value :: "config \<Rightarrow> string \<Rightarrow> real" where
  "source_value cfg v = decimal_value (source_text cfg v)"

text \<open>
  Removing the literal occurrences of a separator and nothing else, from the left.
\<close>

function remove_literal :: "string \<Rightarrow> string \<Rightarrow> string" where
  "remove_literal sep s =
     (if s = [] then []
      else if sep \<noteq> [] \<and> startsWith s sep then remove_literal sep (drop (length sep) s)
      else hd s # remove_literal sep (tl s))"
  by pat_completeness auto
termination
  by (relation "measure (\<lambda>(sep, s). length s)") auto

declare remove_literal.simps [simp del]

text \<open>
  The characters with a meaning of their own in a regular expression; a separator
  without any of them is a literal one.
\<close>

definition syntax_character :: "char \<Rightarrow> bool" where
  "syntax_character c = (c \<in> set ''|.*+?()[{^$'' \<or> c = CHR 0x5C)"

definition literal_separator :: "string \<Rightarrow> bool" where
  "literal_separator sep = list_all (\<lambda>c. \<not> syntax_character c) sep"

section \<open>The easing functions: formulas and end points\<close>

lemma to_double_0: "to_double 0 = Fin 0" by (simp add: to_double_def)
lemma to_double_1: "to_double 1 = Fin 1" by code_simp
lemma to_double_2: "to_double 2 = Fin 2" by code_simp
lemma to_double_m1: "to_double (- 1) = Fin (- 1)" by code_simp

lemma powi_floor_powr: "of_int \<lfloor>y\<rfloor> = y \<Longrightarrow> (2::real) powi \<lfloor>y\<rfloor> = 2 powr y"
proof -
  assume a: "of_int \<lfloor>y\<rfloor> = y"
  have "(2::real) powr (of_int \<lfloor>y\<rfloor>) = 2 powi \<lfloor>y\<rfloor>"
    by (rule powr_real_of_int') simp_all
  then show ?thesis unfolding a by simp
qed

lemma Math_pow2_Fin: "Math_pow2 (Fin y) = to_double (2 powr y)"
  by (simp add: powi_floor_powr to_double_1)

lemma easeInQuad_formula: "exact (t * t) \<Longrightarrow> easeInQuad (Fin t) = Fin (t\<^sup>2)"
  by (simp add: easeInQuad_def exact_def power2_eq_square)
lemma easeOutQuad_formula: "exact (2 - t) \<Longrightarrow> exact (t * (2 - t)) \<Longrightarrow> easeOutQuad (Fin t) = Fin (t * (2 - t))"
  by (simp add: easeOutQuad_def exact_def jsub_def)
lemma easeInOutQuad_formula: "exact (2 * t) \<Longrightarrow> exact (2 * t * t) \<Longrightarrow> exact (4 - 2 * t) \<Longrightarrow> exact ((4 - 2 * t) * t)
  \<Longrightarrow> exact (- 1 + (4 - 2 * t) * t) \<Longrightarrow>
  easeInOutQuad (Fin t) = Fin (if t < 1 / 2 then 2 * t\<^sup>2 else - 1 + (4 - 2 * t) * t)"
  by (simp add: easeInOutQuad_def exact_def jsub_def power2_eq_square)
lemma easeInCubic_formula: "exact (t * t) \<Longrightarrow> exact (t * t * t) \<Longrightarrow> easeInCubic (Fin t) = Fin (t ^ 3)"
  by (simp add: easeInCubic_def exact_def power3_eq_cube)
lemma easeOutCubic_formula: "exact (t - 1) \<Longrightarrow> exact ((t - 1) * (t - 1)) \<Longrightarrow> exact ((t - 1) * (t - 1) * (t - 1))
  \<Longrightarrow> exact ((t - 1) * (t - 1) * (t - 1) + 1) \<Longrightarrow> easeOutCubic (Fin t) = Fin ((t - 1) ^ 3 + 1)"
  by (simp add: easeOutCubic_def exact_def jsub_def power3_eq_cube Let_def)
lemma easeInOutCubic_formula: "exact (4 * t) \<Longrightarrow> exact (4 * t * t) \<Longrightarrow> exact (4 * t * t * t) \<Longrightarrow> exact (t - 1) \<Longrightarrow> exact (2 * t)
  \<Longrightarrow> exact (2 * t - 2) \<Longrightarrow> exact ((t - 1) * (2 * t - 2)) \<Longrightarrow> exact ((t - 1) * (2 * t - 2) * (2 * t - 2))
  \<Longrightarrow> exact ((t - 1) * (2 * t - 2) * (2 * t - 2) + 1) \<Longrightarrow>
  easeInOutCubic (Fin t) = Fin (if t < 1 / 2 then 4 * t ^ 3 else (t - 1) * (2 * t - 2)\<^sup>2 + 1)"
  by (simp add: easeInOutCubic_def exact_def jsub_def power3_eq_cube power2_eq_square algebra_simps)
lemma easeOutExpo_formula: "exact (- 10 * t) \<Longrightarrow> exact (2 powr (- 10 * t)) \<Longrightarrow> exact (1 - 2 powr (- 10 * t)) \<Longrightarrow>
  easeOutExpo (Fin t) = Fin (if t = 1 then 1 else 1 - 2 powr (- 10 * t))"
  by (simp add: easeOutExpo_def exact_def jsub_def strict_eq_def Math_pow2_Fin del: Math_pow2.simps)

text \<open>
  Claim C6. Each of the eight easing functions computes its stated formula: whenever no
  intermediate result of the double arithmetic needs rounding, the value at \<open>t\<close> is
  exactly \<open>t\<close>, \<open>t\<^sup>2\<close>, \<open>t(2 - t)\<close>, \<open>2t\<^sup>2\<close> or \<open>-1 + (4 - 2t)t\<close>, \<open>t\<^sup>3\<close>, \<open>(t - 1)\<^sup>3 + 1\<close>,
  \<open>4t\<^sup>3\<close> or \<open>(t - 1)(2t - 2)\<^sup>2 + 1\<close>, and 1 or \<open>1 - 2\<^sup>-\<^sup>1\<^sup>0\<^sup>t\<close>. In double arithmetic
  as it is, every one of them maps 0 to 0 and 1 to 1, and \<open>easeOutExpo\<close> returns 1 at
  \<open>t === 1\<close> by its guard, whatever the power would give.
\<close>

theorem easing_library:
  "easeLinear (Fin t) = Fin t
   \<and> (exact (t * t) \<longrightarrow> easeInQuad (Fin t) = Fin (t\<^sup>2))
   \<and> (exact (2 - t) \<and> exact (t * (2 - t)) \<longrightarrow> easeOutQuad (Fin t) = Fin (t * (2 - t)))
   \<and> (exact (2 * t) \<and> exact (2 * t * t) \<and> exact (4 - 2 * t) \<and> exact ((4 - 2 * t) * t)
        \<and> exact (- 1 + (4 - 2 * t) * t)
      \<longrightarrow> easeInOutQuad (Fin t) = Fin (if t < 1 / 2 then 2 * t\<^sup>2 else - 1 + (4 - 2 * t) * t))
   \<and> (exact (t * t) \<and> exact (t * t * t) \<longrightarrow> easeInCubic (Fin t) = Fin (t ^ 3))
   \<and> (exact (t - 1) \<and> exact ((t - 1) * (t - 1)) \<and> exact ((t - 1) * (t - 1) * (t - 1))
        \<and> exact ((t - 1) * (t - 1) * (t - 1) + 1)
      \<longrightarrow> easeOutCubic (Fin t) = Fin ((t - 1) ^ 3 + 1))
   \<and> (exact (4 * t) \<and> exact (4 * t * t) \<and> exact (4 * t * t * t) \<and> exact (t - 1) \<and> exact (2 * t)
        \<and> exact (2 * t - 2) \<and> exact ((t - 1) * (2 * t - 2))
        \<and> exact ((t - 1) * (2 * t - 2) * (2 * t - 2))
        \<and> exact ((t - 1) * (2 * t - 2) * (2 * t - 2) + 1)
      \<longrightarrow> easeInOutCubic (Fin t)
          = Fin (if t < 1 / 2 then 4 * t ^ 3 else (t - 1) * (2 * t - 2)\<^sup>2 + 1))
   \<and> (exact (- 10 * t) \<and> exact (2 powr (- 10 * t)) \<and> exact (1 - 2 powr (- 10 * t))
      \<longrightarrow> easeOutExpo (Fin t) = Fin (if t = 1 then 1 else 1 - 2 powr (- 10 * t)))
   \<and> easeLinear (Fin 0) = Fin 0 \<and> easeLinear (Fin 1) = Fin 1
   \<and> easeInQuad (Fin 0) = Fin 0 \<and> easeInQuad (Fin 1) = Fin 1
   \<and> easeOutQuad (Fin 0) = Fin 0 \<and> easeOutQuad (Fin 1) = Fin 1
   \<and> easeInOutQuad (Fin 0) = Fin 0 \<and> easeInOutQuad (Fin 1) = Fin 1
   \<and> easeInCubic (Fin 0) = Fin 0 \<and> easeInCubic (Fin 1) = Fin 1
   \<and> easeOutCubic (Fin 0) = Fin 0 \<and> easeOutCubic (Fin 1) = Fin 1
   \<and> easeInOutCubic (Fin 0) = Fin 0 \<and> easeInOutCubic (Fin 1) = Fin 1
   \<and> easeOutExpo (Fin 0) = Fin 0 \<and> easeOutExpo (Fin 1) = Fin 1
   \<and> (strict_eq u (Fin 1) \<longrightarrow> easeOutExpo u = Fin 1)"
proof (intro conjI impI allI)
  show "easeLinear (Fin t) = Fin t" by (simp add: easeLinear_def)
  show "easeLinear (Fin 0) = Fin 0" "easeLinear (Fin 1) = Fin 1" by (simp_all add: easeLinear_def)
  show "easeInQuad (Fin 0) = Fin 0" "easeInQuad (Fin 1) = Fin 1"
    by (simp_all add: easeInQuad_def to_double_0 to_double_1)
  show "easeOutQuad (Fin 0) = Fin 0" "easeOutQuad (Fin 1) = Fin 1"
    by (simp_all add: easeOutQuad_def jsub_def to_double_0 to_double_1 to_double_2)
  show "easeInOutQuad (Fin 0) = Fin 0" "easeInOutQuad (Fin 1) = Fin 1"
    by (simp_all add: easeInOutQuad_def jsub_def to_double_0 to_double_1 to_double_2)
  show "easeInCubic (Fin 0) = Fin 0" "easeInCubic (Fin 1) = Fin 1"
    by (simp_all add: easeInCubic_def to_double_0 to_double_1)
  show "easeOutCubic (Fin 0) = Fin 0" "easeOutCubic (Fin 1) = Fin 1"
    by (simp_all add: easeOutCubic_def jsub_def to_double_0 to_double_1 to_double_m1)
  show "easeInOutCubic (Fin 0) = Fin 0" "easeInOutCubic (Fin 1) = Fin 1"
    by (simp_all add: easeInOutCubic_def jsub_def to_double_0 to_double_1 to_double_2)
  show "easeOutExpo (Fin 0) = Fin 0" "easeOutExpo (Fin 1) = Fin 1"
    by (simp_all add: easeOutExpo_def jsub_def strict_eq_def to_double_0)
  show "strict_eq u (Fin 1) \<Longrightarrow> easeOutExpo u = Fin 1"
    by (simp add: easeOutExpo_def)
qed (simp_all add: easeInQuad_formula easeOutQuad_formula easeInOutQuad_formula
       easeInCubic_formula easeOutCubic_formula easeInOutCubic_formula easeOutExpo_formula)

lemma to_double_samples:
  "to_double (1 / 4) = Fin (1 / 4)" "to_double (3 / 2) = Fin (3 / 2)"
  "to_double (3 / 4) = Fin (3 / 4)" "to_double 3 = Fin 3" "to_double (1 / 2) = Fin (1 / 2)"
  "to_double (1 / 8) = Fin (1 / 8)" "to_double (- (1 / 2)) = Fin (- (1 / 2))"
  "to_double (- (1 / 8)) = Fin (- (1 / 8))" "to_double (7 / 8) = Fin (7 / 8)"
  "to_double (- 1) = Fin (- 1)" "to_double (- 5) = Fin (- 5)"
  "to_double (1 / 32) = Fin (1 / 32)" "to_double (31 / 32) = Fin (31 / 32)"
  by code_simp+

lemma two_powr_minus_5: "(2::real) powr - 5 = 1 / 32"
  by (simp add: powr_minus_divide)

theorem easing_library_witness:
  "easeInQuad (Fin (1 / 2)) = Fin (1 / 4) \<and> easeOutQuad (Fin (1 / 2)) = Fin (3 / 4)
   \<and> easeInOutQuad (Fin (1 / 2)) = Fin (1 / 2) \<and> easeInCubic (Fin (1 / 2)) = Fin (1 / 8)
   \<and> easeOutCubic (Fin (1 / 2)) = Fin (7 / 8) \<and> easeInOutCubic (Fin (1 / 2)) = Fin (1 / 2)
   \<and> easeOutExpo (Fin (1 / 2)) = Fin (31 / 32)"
  using easing_library [of "1 / 2" "Fin 1"]
  by (simp add: exact_def two_powr_minus_5 to_double_samples to_double_1 to_double_2 power2_eq_square power3_eq_cube)

section \<open>At most one session for an element\<close>

lemma set_innerText_fields [simp]:
  "settings (set_innerText e t st) = settings st"
  "elements (set_innerText e t st) = elements st"
  "observers (set_innerText e t st) = observers st"
  "animations (set_innerText e t st) = animations st"
  "elementState (set_innerText e t st) = elementState st"
  "raf_pending (set_innerText e t st) = raf_pending st"
  "raf_next (set_innerText e t st) = raf_next st"
  "io_callback (set_innerText e t st) = io_callback st"
  "io_observing (set_innerText e t st) = io_observing st"
  "io_next (set_innerText e t st) = io_next st"
  "console (set_innerText e t st) = console st"
  "document (set_innerText e t st) = (document st)(e := (document st e)\<lparr> innerText := t \<rparr>)"
  by (simp_all add: set_innerText_def)

lemma warn_fields [simp]:
  "settings (warn w st) = settings st"
  "elements (warn w st) = elements st"
  "observers (warn w st) = observers st"
  "animations (warn w st) = animations st"
  "elementState (warn w st) = elementState st"
  "raf_pending (warn w st) = raf_pending st"
  "raf_next (warn w st) = raf_next st"
  "io_callback (warn w st) = io_callback st"
  "io_observing (warn w st) = io_observing st"
  "io_next (warn w st) = io_next st"
  "document (warn w st) = document st"
  "console (warn w st) = console st @ [w]"
  by (simp_all add: warn_def)

lemma cancelAnimation_fields [simp]:
  "settings (cancelAnimation e st) = settings st"
  "elements (cancelAnimation e st) = elements st"
  "observers (cancelAnimation e st) = observers st"
  "elementState (cancelAnimation e st) = elementState st"
  "raf_next (cancelAnimation e st) = raf_next st"
  "io_callback (cancelAnimation e st) = io_callback st"
  "io_observing (cancelAnimation e st) = io_observing st"
  "io_next (cancelAnimation e st) = io_next st"
  "document (cancelAnimation e st) = document st"
  "console (cancelAnimation e st) = console st"
  by (simp_all add: cancelAnimation_def cancelAnimationFrame_def split: option.splits)

lemma cancelAnimation_animations:
  "map_of (animations (cancelAnimation e st)) = (map_of (animations st))(e := None)"
  by (auto simp: cancelAnimation_def cancelAnimationFrame_def delete_conv' split: option.splits)

lemma cancelAnimation_pending:
  "raf_pending (cancelAnimation e st) =
     (case map_of (animations st) e of None \<Rightarrow> raf_pending st
      | Some animId \<Rightarrow> (raf_pending st)(animId := None))"
  by (simp add: cancelAnimation_def cancelAnimationFrame_def split: option.splits)

lemma one_session_cancelAnimation:
  "one_session st \<Longrightarrow> one_session (cancelAnimation e st)"
  unfolding one_session_def
  by (auto simp: cancelAnimation_animations cancelAnimation_pending split: option.splits if_splits)

lemma pending_for_cancelAnimation:
  "one_session st \<Longrightarrow> pending_for (cancelAnimation e st) e = {}"
  unfolding one_session_def pending_for_def
  by (auto simp: cancelAnimation_pending split: option.splits if_splits)

lemma animate_cases:
  "animate e st =
     (let st1 = cancelAnimation e st in
      case counterupDecimals (document st e) of
        None \<Rightarrow> warn (InvalidValues e) st1
      | Some d \<Rightarrow>
          (case counterupNumber (document st e) of
             None \<Rightarrow> warn (InvalidValues e) st1
           | Some x \<Rightarrow>
               if x = NaN then warn (InvalidValues e) st1
               else st1\<lparr> raf_pending := (raf_pending st1)(raf_next st \<mapsto>
                            \<lparr> anim_element = e, targetValue = x, anim_decimals = parseInt_String d,
                              anim_hasComma = (counterupHasCommas (document st e) = Some True),
                              startValue = Fin 0, startTime = None,
                              anim_duration = duration (settings st),
                              easingFn = lookup_easing (easing (settings st)) \<rparr>),
                          raf_next := Suc (raf_next st),
                          animations := AList.update e (raf_next st) (animations st1) \<rparr>))"
  by (simp add: animate_def Let_def requestAnimationFrame_def isNaN_def split: option.splits)

lemma one_session_animate:
  "one_session st \<Longrightarrow> one_session (animate e st)"
proof -
  assume a: "one_session st"
  have c: "one_session (cancelAnimation e st)" by (rule one_session_cancelAnimation [OF a])
  have p: "pending_for (cancelAnimation e st) e = {}" by (rule pending_for_cancelAnimation [OF a])
  show ?thesis
    using c p unfolding animate_cases Let_def one_session_def pending_for_def
    by (auto simp: update_conv' less_Suc_eq split: option.splits if_splits)
qed



text \<open>What a frame callback that returns has done.\<close>

lemma step_untouched:
  assumes "step c ts st = Inr st'"
  shows "settings st' = settings st" "elements st' = elements st" "observers st' = observers st"
    "elementState st' = elementState st" "io_callback st' = io_callback st"
    "io_observing st' = io_observing st" "io_next st' = io_next st" "console st' = console st"
    "e \<noteq> anim_element c \<Longrightarrow> document st' e = document st e"
  using assms
  by (auto simp: step_def Let_def requestAnimationFrame_def split: sum.splits if_splits)

lemma step_returns:
  assumes "step c ts st = Inr st'"
  shows "(raf_pending st' = (raf_pending st)(raf_next st \<mapsto>
              c\<lparr> startTime := Some (case startTime c of None \<Rightarrow> ts | Some t \<Rightarrow> t) \<rparr>)
          \<and> raf_next st' = Suc (raf_next st)
          \<and> animations st' = AList.update (anim_element c) (raf_next st) (animations st))
         \<or> (raf_pending st' = raf_pending st
          \<and> raf_next st' = raf_next st
          \<and> animations st' = AList.delete (anim_element c) (animations st)
          \<and> formatNumber (settings st) (targetValue c) (anim_decimals c) (anim_hasComma c)
              = Inr (innerText (document st' (anim_element c))))"
  using assms
  by (auto simp: step_def Let_def requestAnimationFrame_def split: sum.splits if_splits)

lemma one_sessionD:
  assumes "one_session st"
  shows "raf_pending st animId = Some c \<Longrightarrow> map_of (animations st) (anim_element c) = Some animId"
    and "raf_pending st animId = Some c \<Longrightarrow> animId < raf_next st"
    and "map_of (animations st) e = Some animId \<Longrightarrow> animId < raf_next st"
    and "map_of (animations st) e = Some animId \<Longrightarrow> raf_pending st animId = Some c \<Longrightarrow>
         anim_element c = e"
  using assms unfolding one_session_def by blast+

lemma one_session_step:
  assumes i: "one_session st" and p: "pending_for st (anim_element c) = {}"
    and s: "step c ts st = Inr st'"
  shows "one_session st'"
proof -
  note d = one_sessionD [OF i]
  have np: "raf_pending st a = Some c' \<Longrightarrow> anim_element c' \<noteq> anim_element c" for a c'
    using p by (auto simp: pending_for_def)
  from step_returns [OF s] show ?thesis
  proof
    assume r: "raf_pending st' = (raf_pending st)(raf_next st \<mapsto>
              c\<lparr> startTime := Some (case startTime c of None \<Rightarrow> ts | Some t \<Rightarrow> t) \<rparr>)
          \<and> raf_next st' = Suc (raf_next st)
          \<and> animations st' = AList.update (anim_element c) (raf_next st) (animations st)"
    show ?thesis
      unfolding one_session_def
    proof (intro conjI allI impI)
      fix a c' assume "raf_pending st' a = Some c'"
      then show "map_of (animations st') (anim_element c') = Some a"
        using r d(1) np by (auto simp: update_conv' split: if_splits)
    next
      fix a c' assume "raf_pending st' a = Some c'"
      then show "a < raf_next st'"
        using r d(2) by (auto simp: less_Suc_eq split: if_splits)
    next
      fix e a assume "map_of (animations st') e = Some a"
      then show "a < raf_next st'"
        using r d(3) by (auto simp: update_conv' less_Suc_eq split: if_splits)
    next
      fix e a c' assume "map_of (animations st') e = Some a \<and> raf_pending st' a = Some c'"
      then show "anim_element c' = e"
        using r d(2) d(3) [of e a] d(4) [of e a c'] np [of a c']
        by (auto simp: update_conv' split: if_splits)
    qed
  next
    assume r: "raf_pending st' = raf_pending st
          \<and> raf_next st' = raf_next st
          \<and> animations st' = AList.delete (anim_element c) (animations st)
          \<and> formatNumber (settings st) (targetValue c) (anim_decimals c) (anim_hasComma c)
              = Inr (innerText (document st' (anim_element c)))"
    show ?thesis
      unfolding one_session_def
    proof (intro conjI allI impI)
      fix a c' assume "raf_pending st' a = Some c'"
      then show "map_of (animations st') (anim_element c') = Some a"
        using r d(1) np by (auto simp: delete_conv')
    next
      fix a c' assume "raf_pending st' a = Some c'"
      then show "a < raf_next st'" using r d(2) by auto
    next
      fix e a assume "map_of (animations st') e = Some a"
      then show "a < raf_next st'"
        using r d(3) by (auto simp: delete_conv' split: if_splits)
    next
      fix e a c' assume "map_of (animations st') e = Some a \<and> raf_pending st' a = Some c'"
      then show "anim_element c' = e"
        using r d(4) [of e a c'] by (auto simp: delete_conv' split: if_splits)
    qed
  qed
qed

lemma one_session_cancelAnimationFrame:
  "one_session st \<Longrightarrow> one_session (cancelAnimationFrame animId st)"
  unfolding one_session_def by (auto simp: cancelAnimationFrame_def split: if_splits)

lemma pending_for_after_fire:
  "one_session st \<Longrightarrow> raf_pending st animId = Some c \<Longrightarrow>
   pending_for (cancelAnimationFrame animId st) (anim_element c) = {}"
proof -
  assume a: "one_session st" and b: "raf_pending st animId = Some c"
  have "\<And>x ca. x \<noteq> animId \<Longrightarrow> raf_pending st x = Some ca \<Longrightarrow> anim_element ca \<noteq> anim_element c"
  proof
    fix x ca
    assume n: "x \<noteq> animId" and p: "raf_pending st x = Some ca" and e: "anim_element ca = anim_element c"
    from a p have "map_of (animations st) (anim_element ca) = Some x" by (simp add: one_session_def)
    moreover from a b have "map_of (animations st) (anim_element c) = Some animId"
      by (simp add: one_session_def)
    ultimately show False using n e by simp
  qed
  then show ?thesis
    by (auto simp: pending_for_def cancelAnimationFrame_def split: if_splits)
qed

lemma one_session_warn: "one_session st \<Longrightarrow> one_session (warn w st)"
  unfolding one_session_def by simp

lemma one_session_set_innerText: "one_session st \<Longrightarrow> one_session (set_innerText e t st)"
  unfolding one_session_def by simp

lemma one_session_run_frame:
  assumes "one_session st"
  shows "one_session (run_frame animId ts st)"
proof (cases "raf_pending st animId")
  case None
  then show ?thesis using assms by (simp add: run_frame_def)
next
  case (Some c)
  let ?st1 = "cancelAnimationFrame animId st"
  have i: "one_session ?st1" by (rule one_session_cancelAnimationFrame [OF assms])
  have p: "pending_for ?st1 (anim_element c) = {}" by (rule pending_for_after_fire [OF assms Some])
  show ?thesis
  proof (cases "step c ts ?st1")
    case (Inl err)
    then show ?thesis using Some i by (simp add: run_frame_def Let_def one_session_warn)
  next
    case (Inr st2)
    then show ?thesis using Some one_session_step [OF i p Inr] by (simp add: run_frame_def Let_def)
  qed
qed

text \<open>\<open>init\<close> leaves the animation frame requests and \<open>animations\<close> alone.\<close>

lemma init_element_frame:
  "raf_pending (fst (init_element e st)) = raf_pending st
   \<and> raf_next (fst (init_element e st)) = raf_next st
   \<and> animations (fst (init_element e st)) = animations st
   \<and> settings (fst (init_element e st)) = settings st
   \<and> elements (fst (init_element e st)) = elements st"
  by (simp add: init_element_def Let_def split: sum.splits option.splits)

lemma init_elements_frame:
  "raf_pending (fst (init_elements es st)) = raf_pending st
   \<and> raf_next (fst (init_elements es st)) = raf_next st
   \<and> animations (fst (init_elements es st)) = animations st
   \<and> settings (fst (init_elements es st)) = settings st
   \<and> elements (fst (init_elements es st)) = elements st"
proof (induction es arbitrary: st)
  case Nil
  then show ?case by simp
next
  case (Cons e es)
  show ?case
  proof (cases "init_element e st")
    case (Pair st' r)
    then show ?thesis
      using init_element_frame [of e st] Cons.IH [of st']
      by (cases r) simp_all
  qed
qed

lemma one_session_init: "one_session st \<Longrightarrow> one_session (fst (init st))"
  using init_elements_frame [of "elements st" st] unfolding one_session_def init_def by simp

lemma fold_cancel_fields:
  "raf_pending (fold (\<lambda>(element, animId). cancelAnimationFrame animId) al st) =
     (\<lambda>animId. if animId \<in> snd ` set al then None else raf_pending st animId)"
  "raf_next (fold (\<lambda>(element, animId). cancelAnimationFrame animId) al st) = raf_next st"
  "observers (fold (\<lambda>(element, animId). cancelAnimationFrame animId) al st) = observers st"
  "elements (fold (\<lambda>(element, animId). cancelAnimationFrame animId) al st) = elements st"
  "document (fold (\<lambda>(element, animId). cancelAnimationFrame animId) al st) = document st"
  "settings (fold (\<lambda>(element, animId). cancelAnimationFrame animId) al st) = settings st"
  "io_callback (fold (\<lambda>(element, animId). cancelAnimationFrame animId) al st) = io_callback st"
  "io_observing (fold (\<lambda>(element, animId). cancelAnimationFrame animId) al st) = io_observing st"
  "io_next (fold (\<lambda>(element, animId). cancelAnimationFrame animId) al st) = io_next st"
  "console (fold (\<lambda>(element, animId). cancelAnimationFrame animId) al st) = console st"
  by (induction al arbitrary: st; auto simp: cancelAnimationFrame_def fun_eq_iff)+

lemma fold_disconnect_fields:
  "raf_pending (fold (\<lambda>observer s. s\<lparr> io_observing := (io_observing s)(observer := None) \<rparr>) os st) = raf_pending st"
  "raf_next (fold (\<lambda>observer s. s\<lparr> io_observing := (io_observing s)(observer := None) \<rparr>) os st) = raf_next st"
  "animations (fold (\<lambda>observer s. s\<lparr> io_observing := (io_observing s)(observer := None) \<rparr>) os st) = animations st"
  "elements (fold (\<lambda>observer s. s\<lparr> io_observing := (io_observing s)(observer := None) \<rparr>) os st) = elements st"
  "document (fold (\<lambda>observer s. s\<lparr> io_observing := (io_observing s)(observer := None) \<rparr>) os st) = document st"
  "settings (fold (\<lambda>observer s. s\<lparr> io_observing := (io_observing s)(observer := None) \<rparr>) os st) = settings st"
  by (induction os arbitrary: st; simp)+

lemma fold_restore_fields:
  "raf_pending (fold (\<lambda>e s. case counterupValue (document s e) of None \<Rightarrow> s
        | Some v \<Rightarrow> if v = [] then s else set_innerText e v s) es st) = raf_pending st"
  "raf_next (fold (\<lambda>e s. case counterupValue (document s e) of None \<Rightarrow> s
        | Some v \<Rightarrow> if v = [] then s else set_innerText e v s) es st) = raf_next st"
  "animations (fold (\<lambda>e s. case counterupValue (document s e) of None \<Rightarrow> s
        | Some v \<Rightarrow> if v = [] then s else set_innerText e v s) es st) = animations st"
  "elements (fold (\<lambda>e s. case counterupValue (document s e) of None \<Rightarrow> s
        | Some v \<Rightarrow> if v = [] then s else set_innerText e v s) es st) = elements st"
  "settings (fold (\<lambda>e s. case counterupValue (document s e) of None \<Rightarrow> s
        | Some v \<Rightarrow> if v = [] then s else set_innerText e v s) es st) = settings st"
  by (induction es arbitrary: st; simp split: option.splits)+

lemma reset_frame:
  "raf_pending (reset st) = (\<lambda>animId. if animId \<in> snd ` set (animations st) then None else raf_pending st animId)"
  "raf_next (reset st) = raf_next st"
  "animations (reset st) = []"
  "elements (reset st) = elements st"
  "settings (reset st) = settings st"
  by (simp_all add: reset_def Let_def fold_restore_fields fold_disconnect_fields fold_cancel_fields)

lemma one_session_reset:
  assumes "one_session st"
  shows "one_session (reset st)"
proof -
  have "raf_pending (reset st) animId = None" for animId
  proof (cases "raf_pending st animId")
    case None
    then show ?thesis by (simp add: reset_frame)
  next
    case (Some c)
    with assms have "map_of (animations st) (anim_element c) = Some animId"
      by (simp add: one_session_def)
    then have "(anim_element c, animId) \<in> set (animations st)" by (rule map_of_SomeD)
    then have "animId \<in> snd ` set (animations st)" by force
    then show ?thesis by (simp add: reset_frame)
  qed
  then show ?thesis by (simp add: one_session_def reset_frame)
qed

lemma one_session_replay_fold:
  "one_session st \<Longrightarrow> one_session (fold (\<lambda>e s. animate e (set_innerText e ''0'' s)) es st)"
  by (induction es arbitrary: st) (simp_all add: one_session_animate one_session_set_innerText)

lemma one_session_replay: "one_session st \<Longrightarrow> one_session (replay st)"
  by (simp add: replay_def one_session_replay_fold)

lemma one_session_update_fields:
  "one_session st \<Longrightarrow> one_session (st\<lparr> settings := x \<rparr>)"
  "one_session st \<Longrightarrow> one_session (st\<lparr> elements := y \<rparr>)"
  "one_session st \<Longrightarrow> one_session (st\<lparr> elementState := z \<rparr>)"
  "one_session st \<Longrightarrow> one_session (st\<lparr> io_observing := u, observers := v \<rparr>)"
  unfolding one_session_def by simp_all

lemma one_session_on_intersection:
  assumes "one_session st"
  shows "one_session (on_intersection observer visible st)"
proof (cases "io_callback st observer")
  case None
  then show ?thesis using assms by (simp add: on_intersection_def)
next
  case (Some e)
  have i1: "one_session (st\<lparr> elementState := (elementState st)(e \<mapsto> b) \<rparr>)" for b
    using assms by (rule one_session_update_fields)
  show ?thesis
  proof (cases visible)
    case True
    then show ?thesis
      using Some one_session_animate [OF i1 [of True], of e]
      by (simp add: on_intersection_def Let_def one_session_update_fields)
  next
    case False
    then show ?thesis
      using Some i1 [of False] one_session_cancelAnimation [OF i1 [of False], of e]
      by (simp add: on_intersection_def Let_def one_session_set_innerText)
  qed
qed

lemma one_session_nothing_pending:
  "raf_pending st = Map.empty \<Longrightarrow> animations st = [] \<Longrightarrow> one_session st"
  by (simp add: one_session_def)

lemma one_session_CounterUp: "one_session (fst (CounterUp selected opts page))"
  by (simp add: CounterUp_def Let_def one_session_warn one_session_init
        one_session_nothing_pending)

lemma reachable_one_session: "reachable st \<Longrightarrow> one_session st"
proof (induction rule: reachable.induct)
  case (constructed selected opts page)
  then show ?case by (rule one_session_CounterUp)
next
  case (frame st animId timestamp)
  then show ?case by (simp add: one_session_run_frame)
next
  case (intersection st observer visible)
  then show ?case by (simp add: one_session_on_intersection)
next
  case (updated st opts)
  then show ?case
    by (simp add: updateOptions_def one_session_init one_session_reset one_session_update_fields)
next
  case (restarted st)
  then show ?case by (simp add: restart_def one_session_init one_session_reset)
next
  case (replayed st)
  then show ?case by (simp add: one_session_replay)
next
  case (destroyed st)
  then show ?case by (simp add: destroy_def one_session_reset one_session_update_fields)
qed

lemma animate_document [simp]: "document (animate e st) = document st"
  by (simp add: animate_cases Let_def split: option.splits)

lemma animate_settings [simp]: "settings (animate e st) = settings st"
  by (simp add: animate_cases Let_def split: option.splits)

lemma animate_starts:
  assumes i: "one_session st"
    and d: "counterupDecimals (document st e) = Some d"
    and x: "counterupNumber (document st e) = Some x" "x \<noteq> NaN"
  shows "raf_pending (animate e st) (raf_next st) =
           Some \<lparr> anim_element = e, targetValue = x, anim_decimals = parseInt_String d,
                  anim_hasComma = (counterupHasCommas (document st e) = Some True),
                  startValue = Fin 0, startTime = None,
                  anim_duration = duration (settings st),
                  easingFn = lookup_easing (easing (settings st)) \<rparr>"
    and "map_of (animations (animate e st)) e = Some (raf_next st)"
    and "pending_for (animate e st) e = {raf_next st}"
    and "map_of (animations st) e = Some old \<Longrightarrow> raf_pending (animate e st) old = None"
proof -
  note ds = one_sessionD [OF i]
  show "raf_pending (animate e st) (raf_next st) =
           Some \<lparr> anim_element = e, targetValue = x, anim_decimals = parseInt_String d,
                  anim_hasComma = (counterupHasCommas (document st e) = Some True),
                  startValue = Fin 0, startTime = None,
                  anim_duration = duration (settings st),
                  easingFn = lookup_easing (easing (settings st)) \<rparr>"
    using d x by (simp add: animate_cases Let_def)
  show "map_of (animations (animate e st)) e = Some (raf_next st)"
    using d x by (simp add: animate_cases Let_def update_conv')
  have "pending_for (cancelAnimation e st) e = {}" by (rule pending_for_cancelAnimation [OF i])
  then show "pending_for (animate e st) e = {raf_next st}"
    using d x by (auto simp: animate_cases Let_def pending_for_def split: if_splits)
  show "raf_pending (animate e st) old = None" if "map_of (animations st) e = Some old"
    using d x that ds(3) [OF that]
    by (simp add: animate_cases Let_def cancelAnimation_pending)
qed

text \<open>
  Claim C1. In every state an instance reaches, an element has at most one pending
  frame request, and if it has one it is the request \<open>animations\<close> records for it.
  For an element that carries a parsed number, \<open>animate\<close> called twice in succession
  revokes the request of the first call before it makes the second: the first is no
  longer pending, and the second is the only pending request of the element.
\<close>

theorem at_most_one_session:
  assumes "reachable st"
  shows "(\<forall>a b. a \<in> pending_for st e \<and> b \<in> pending_for st e \<longrightarrow> a = b)
    \<and> pending_for st e \<subseteq> set_option (map_of (animations st) e)
    \<and> (counterupDecimals (document st e) \<noteq> None
        \<and> counterupNumber (document st e) \<noteq> None
        \<and> counterupNumber (document st e) \<noteq> Some NaN \<longrightarrow>
       (\<exists>first second.
          map_of (animations (animate e st)) e = Some first
          \<and> pending_for (animate e st) e = {first}
          \<and> raf_pending (animate e (animate e st)) first = None
          \<and> map_of (animations (animate e (animate e st))) e = Some second
          \<and> pending_for (animate e (animate e st)) e = {second}))"
proof -
  have i: "one_session st" by (rule reachable_one_session [OF assms])
  note ds = one_sessionD [OF i]
  have sub: "pending_for st e \<subseteq> set_option (map_of (animations st) e)"
    using ds(1) by (auto simp: pending_for_def)
  have uniq: "\<forall>a b. a \<in> pending_for st e \<and> b \<in> pending_for st e \<longrightarrow> a = b"
    using sub by (cases "map_of (animations st) e") auto
  have twice: "\<exists>first second.
          map_of (animations (animate e st)) e = Some first
          \<and> pending_for (animate e st) e = {first}
          \<and> raf_pending (animate e (animate e st)) first = None
          \<and> map_of (animations (animate e (animate e st))) e = Some second
          \<and> pending_for (animate e (animate e st)) e = {second}"
    if v: "counterupDecimals (document st e) \<noteq> None
        \<and> counterupNumber (document st e) \<noteq> None
        \<and> counterupNumber (document st e) \<noteq> Some NaN"
  proof -
    from v obtain d x where d: "counterupDecimals (document st e) = Some d"
      and x: "counterupNumber (document st e) = Some x" "x \<noteq> NaN" by auto
    let ?st1 = "animate e st"
    have i1: "one_session ?st1" by (rule one_session_animate [OF i])
    have d1: "counterupDecimals (document ?st1 e) = Some d"
      and x1: "counterupNumber (document ?st1 e) = Some x" using d x by simp_all
    note a = animate_starts [OF i d x]
    note b = animate_starts [OF i1 d1 x1(1) x(2)]
    show ?thesis using a(2) a(3) b(4) [OF a(2)] b(2) b(3) by blast
  qed
  show ?thesis using sub uniq twice by blast
qed

lemma example_instance_reachable: "reachable (example_instance opts)"
  unfolding example_instance_def by (rule reachable.constructed)

lemma example_dataset:
  "counterupDecimals (document (example_instance no_options) 0) = Some 0"
  "counterupNumber (document (example_instance no_options) 0) = Some (Fin 1500)"
  by code_simp+

lemma example_animations:
  "map_of (animations (animate 0 (example_instance no_options))) 0 = Some 0"
  "map_of (animations (animate 0 (animate 0 (example_instance no_options)))) 0 = Some 1"
  by code_simp+

text \<open>
  On the example page: element 0 carries 1500, the first \<open>animate\<close> leaves request 0,
  the second revokes it and leaves request 1.
\<close>

theorem at_most_one_session_witness:
  "reachable (example_instance no_options)
   \<and> counterupDecimals (document (example_instance no_options) 0) = Some 0
   \<and> counterupNumber (document (example_instance no_options) 0) = Some (Fin 1500)
   \<and> pending_for (animate 0 (example_instance no_options)) 0 = {0}
   \<and> raf_pending (animate 0 (animate 0 (example_instance no_options))) 0 = None
   \<and> pending_for (animate 0 (animate 0 (example_instance no_options))) 0 = {1}"
  using at_most_one_session [OF example_instance_reachable, of no_options 0]
  by (simp add: example_dataset example_animations example_instance_reachable)

section \<open>Frames after a cancellation\<close>

lemma run_frame_other_element:
  assumes "pending_for st e = {}"
  shows "document (run_frame animId ts st) e = document st e"
proof (cases "raf_pending st animId")
  case None
  then show ?thesis by (simp add: run_frame_def)
next
  case (Some c)
  then have ne: "e \<noteq> anim_element c" using assms by (auto simp: pending_for_def)
  show ?thesis
  proof (cases "step c ts (cancelAnimationFrame animId st)")
    case (Inl err)
    then show ?thesis using Some by (simp add: run_frame_def Let_def cancelAnimationFrame_def)
  next
    case (Inr st2)
    from step_untouched(9) [OF Inr ne] show ?thesis
      using Some Inr by (simp add: run_frame_def Let_def cancelAnimationFrame_def)
  qed
qed

text \<open>
  Claim C3, as the code has it. In every state an instance reaches, \<open>cancelAnimation\<close>
  renders nothing and leaves the element without a pending frame request, and whatever
  request the scheduler runs afterwards, at whatever time, leaves the element as it was.
  This rests on \<open>cancelAnimationFrame\<close> revoking the request, not on a check in the frame
  callback: the callback makes none.
\<close>

theorem no_frame_after_cancel:
  assumes "reachable st"
  shows "document (cancelAnimation e st) = document st
    \<and> pending_for (cancelAnimation e st) e = {}
    \<and> (\<forall>animId ts. document (run_frame animId ts (cancelAnimation e st)) e = document st e)"
proof -
  have i: "one_session st" by (rule reachable_one_session [OF assms])
  have p: "pending_for (cancelAnimation e st) e = {}" by (rule pending_for_cancelAnimation [OF i])
  show ?thesis using p run_frame_other_element [OF p] by simp
qed

text \<open>
  On the example page: element 0 has entered the viewport and request 0 is pending;
  after \<open>cancelAnimation\<close>, running request 0 changes nothing.
\<close>

theorem no_frame_after_cancel_witness:
  "reachable (on_intersection 0 True (example_instance no_options))
   \<and> raf_pending (on_intersection 0 True (example_instance no_options)) 0 \<noteq> None
   \<and> innerText (document (run_frame 0 (Fin 100)
        (cancelAnimation 0 (on_intersection 0 True (example_instance no_options)))) 0)
      = innerText (document (on_intersection 0 True (example_instance no_options)) 0)"
proof -
  have r: "reachable (on_intersection 0 True (example_instance no_options))"
    by (rule reachable.intersection [OF example_instance_reachable])
  have p: "raf_pending (on_intersection 0 True (example_instance no_options)) 0 \<noteq> None"
    by code_simp
  from no_frame_after_cancel [OF r, of 0] r p show ?thesis by simp
qed

text \<open>
  The frame callback does not look at the session. After \<open>cancelAnimation\<close> the request
  is revoked and \<open>animations\<close> has no entry for the element, and the text is \<open>1,500\<close>;
  were the callback of the cancelled session called all the same, it would render \<open>0\<close>,
  the first frame.
\<close>

theorem stale_frame_renders:
  "(let st1 = on_intersection 0 True (example_instance no_options);
        c = the (raf_pending st1 0);
        st2 = cancelAnimation 0 st1
    in raf_pending st2 0 = None
       \<and> map_of (animations st2) 0 = None
       \<and> innerText (document st2 0) = ''1,500''
       \<and> (case step c (Fin 100) st2 of
             Inl err \<Rightarrow> False
           | Inr st3 \<Rightarrow> innerText (document st3 0) = ''0''))"
  by code_simp

section \<open>The last frame\<close>





lemma cancelAnimationFrame_fields [simp]:
  "settings (cancelAnimationFrame a st) = settings st"
  "animations (cancelAnimationFrame a st) = animations st"
  "raf_next (cancelAnimationFrame a st) = raf_next st"
  "document (cancelAnimationFrame a st) = document st"
  "raf_pending (cancelAnimationFrame a st) = (raf_pending st)(a := None)"
  by (simp_all add: cancelAnimationFrame_def)




lemma lookup_easing_fallback:
  "easingFunctions name = None \<Longrightarrow> Object_prototype name = None \<Longrightarrow>
   lookup_easing name = (\<lambda>t. Inr (easeOutExpo t))"
  by (simp add: lookup_easing_def)








lemma parseInt_String_examples:
  "parseInt_String (10 ^ 21) = 1" "parseInt_String (- 1) = - 1" "parseInt_String 2 = 2"
  by code_simp+

section \<open>Leaving the viewport\<close>





section \<open>Easing names the library has not\<close>

text \<open>
  Claim C7. \<open>this.easingFunctions[name] || easeOutExpo\<close> finds the members every object
  inherits. With the easing \<open>__proto__\<close>, which is no key of the library, the first frame
  after \<open>replay\<close> raises a \<open>TypeError\<close>: the element stays at \<open>0\<close>, no further frame is
  requested and the session is never released. With \<open>toString\<close> the easing returns
  \<open>NaN\<close> where \<open>easeOutExpo\<close> returns 31/32. With \<open>bogus\<close>, which no object inherits,
  the animation runs to the end and shows the target.
\<close>

theorem inherited_easing_name:
  "(let st = replay (example_instance proto_options);
        st' = run_frame 0 (Fin 100) st
    in easingFunctions (easing (settings st)) = None
       \<and> innerText (document st 0) = ''0''
       \<and> raf_pending st 0 \<noteq> None
       \<and> console st' = [Uncaught TypeError]
       \<and> innerText (document st' 0) = ''0''
       \<and> raf_pending st' 0 = None \<and> raf_next st' = 1
       \<and> map_of (animations st') 0 = Some 0)
   \<and> easingFunctions ''toString'' = None
   \<and> lookup_easing ''toString'' (Fin (1 / 2)) = Inr NaN
   \<and> easeOutExpo (Fin (1 / 2)) = Fin (31 / 32)
   \<and> (let st = deliver 0 [Fin 100, Fin 500, Fin 900] (replay (example_instance bogus_options))
      in easingFunctions (easing (settings st)) = None
         \<and> innerText (document st 0) = ''1,500''
         \<and> console st = [])"
  by code_simp

section \<open>Registration\<close>











section \<open>formatNumber and the rendering of the specification\<close>

lemma round_half_away_nearest:
  "\<bar>of_int (round_half_away x d) - \<bar>x\<bar> * 10 ^ d\<bar> \<le> 1 / 2"
  "\<bar>of_int (round_half_away x d) - \<bar>x\<bar> * 10 ^ d\<bar> = 1 / 2 \<Longrightarrow>
     \<bar>x\<bar> * 10 ^ d < of_int (round_half_away x d)"
  unfolding round_half_away_def by linarith+

lemma round_half_away_nonneg: "0 \<le> round_half_away x d"
  unfolding round_half_away_def by (simp add: zero_le_floor)

lemma isDigit_digit_char: "d < 10 \<Longrightarrow> isDigit (digit_char d)"
proof -
  assume "d < 10"
  then have "nat d < length ''0123456789''" by simp
  then have "''0123456789'' ! nat d \<in> set ''0123456789''" by (rule nth_mem)
  then show ?thesis unfolding isDigit_def digit_char_def .
qed

lemma digit_string_digits: "list_all isDigit (digit_string n)"
proof (induction n rule: digit_string.induct)
  case (1 n)
  show ?case
  proof (cases "n < 10")
    case True
    then show ?thesis by (simp add: digit_string.simps [of n] isDigit_digit_char)
  next
    case False
    have "n mod 10 < 10" by simp
    then show ?thesis using False 1 by (simp add: digit_string.simps [of n] isDigit_digit_char)
  qed
qed

lemma digit_string_nonempty: "digit_string n \<noteq> []"
  by (simp add: digit_string.simps [of n])

lemma fraction_digits_length: "length (fraction_digits d n) = d"
  by (induction d arbitrary: n) simp_all

lemma fraction_digits_digits: "list_all isDigit (fraction_digits d n)"
  by (induction d arbitrary: n) (simp_all add: isDigit_digit_char)

lemma digit_char_0: "digit_char 0 = CHR ''0''"
  by (simp add: digit_char_def)

lemma fraction_digits_0: "fraction_digits d 0 = replicate d CHR ''0''"
  by (induction d) (simp_all add: digit_char_0 replicate_append_same)

lemma digit_string_0: "digit_string 0 = ''0''"
  by (simp add: digit_string.simps [of 0] digit_char_0)

lemma digit_string_padded:
  "0 \<le> n \<Longrightarrow>
   (let m = digit_string n
    in if length m \<le> d then replicate (d + 1 - length m) CHR ''0'' @ m else m)
   = digit_string (n div 10 ^ d) @ fraction_digits d n"
proof (induction d arbitrary: n)
  case 0
  have "0 < length (digit_string n)" using digit_string_nonempty [of n] by simp
  then show ?case by (simp add: Let_def)
next
  case (Suc d)
  have dd: "n div (10 * 10 ^ d) = n div 10 div 10 ^ d"
    by (simp add: zdiv_zmult2_eq)
  show ?case
  proof (cases "n < 10")
    case True
    then have q: "n div 10 = 0" "n mod 10 = n" using Suc.prems by simp_all
    have m: "digit_string n = [digit_char n]" using True by (simp add: digit_string.simps [of n])
    show ?thesis
      by (simp add: Let_def dd q m fraction_digits_0 digit_string_0)
  next
    case False
    then have m: "digit_string n = digit_string (n div 10) @ [digit_char (n mod 10)]"
      by (simp add: digit_string.simps [of n])
    have "0 \<le> n div 10" using Suc.prems by simp
    note ih = Suc.IH [OF this, unfolded Let_def]
    show ?thesis
    proof (cases "length (digit_string (n div 10)) \<le> d")
      case True
      then have "Suc d + 1 - length (digit_string (n div 10) @ [digit_char (n mod 10)])
          = d + 1 - length (digit_string (n div 10))" by simp
      then show ?thesis using ih True unfolding m Let_def
        by (simp add: dd del: replicate_Suc)
    next
      case False
      then show ?thesis using ih unfolding m Let_def by (simp add: dd)
    qed
  qed
qed

lemma fixed_digits_layout:
  assumes "0 \<le> a"
  shows "fixed_digits a d =
     digit_string (\<lfloor>a * 10 ^ d + 1 / 2\<rfloor> div 10 ^ d)
     @ (if d = 0 then [] else CHR ''.'' # fraction_digits d \<lfloor>a * 10 ^ d + 1 / 2\<rfloor>)"
proof -
  let ?n = "\<lfloor>a * 10 ^ d + 1 / 2\<rfloor>"
  have n: "0 \<le> ?n" using assms by (simp add: zero_le_floor)
  let ?m' = "(let m = digit_string ?n
    in if length m \<le> d then replicate (d + 1 - length m) CHR ''0'' @ m else m)"
  have p: "?m' = digit_string (?n div 10 ^ d) @ fraction_digits d ?n"
    by (rule digit_string_padded [OF n])
  have f: "fixed_digits a d = (if d = 0 then digit_string ?n
      else take (length ?m' - d) ?m' @ ''.'' @ drop (length ?m' - d) ?m')"
    by (simp add: fixed_digits_def Let_def)
  show ?thesis
    unfolding f p by (simp add: fraction_digits_length)
qed

text \<open>A replacement text without a dollar sign stands for itself.\<close>

lemma get_substitution_literal:
  "CHR ''$'' \<notin> set sep \<Longrightarrow> get_substitution before after capture sep = sep"
  by (induction before after capture sep rule: get_substitution.induct) auto

lemma split_on_none: "c \<notin> set s \<Longrightarrow> split_on c s = [s]"
  by (induction s) auto

lemma split_on_first: "c \<notin> set p \<Longrightarrow> split_on c (p @ c # q) = p # split_on c q"
  by (induction p) auto

lemma isDigit_not_point: "isDigit c \<Longrightarrow> c \<noteq> CHR ''.''"
  by (auto simp: isDigit_def)

lemma digits_no_point: "list_all isDigit ds \<Longrightarrow> CHR ''.'' \<notin> set ds"
  using isDigit_not_point by (auto simp: list_all_iff)

text \<open>
  The positions the expression of \<open>formatNumber\<close> matches in a run of digits: those with
  a digit before them and three digits, or a multiple of three, after them.
\<close>

lemma isWordChar_digit: "isDigit c \<Longrightarrow> isWordChar c"
  by (simp add: isWordChar_def)

lemma takeWhile_all: "list_all P xs \<Longrightarrow> takeWhile P xs = xs"
  by (induction xs) simp_all

lemma insert_separators_digits:
  assumes "CHR ''$'' \<notin> set sep"
  shows "list_all isDigit ds \<Longrightarrow> before \<noteq> [] \<Longrightarrow> isDigit (last before) \<Longrightarrow>
     insert_separators sep before ds
       = (if ds \<noteq> [] \<and> length ds mod 3 = 0 then sep else []) @ separated sep ds"
proof (induction ds arbitrary: before)
  case Nil
  then show ?case by simp
next
  case (Cons c cs)
  have run: "takeWhile isDigit (c # cs) = c # cs"
    by (rule takeWhile_all [OF Cons.prems(1)])
  have wb: "\<not> word_boundary before (c # cs)"
    using Cons.prems by (simp add: word_boundary_def isWordChar_digit)
  have tp: "thousands_position before (c # cs) = (length (c # cs) mod 3 = 0)"
    unfolding thousands_position_def run Let_def using wb by simp
  have ih: "insert_separators sep (before @ [c]) cs
       = (if cs \<noteq> [] \<and> length cs mod 3 = 0 then sep else []) @ separated sep cs"
    by (rule Cons.IH) (use Cons.prems in simp_all)
  show ?case
    unfolding insert_separators.simps tp ih get_substitution_literal [OF assms]
    by simp
qed

lemma insert_separators_first:
  assumes "CHR ''$'' \<notin> set sep"
    and ds: "list_all isDigit (c # cs)"
    and b: "before = [] \<or> \<not> isWordChar (last before)"
  shows "insert_separators sep before (c # cs) = separated sep (c # cs)"
proof -
  have wb: "word_boundary before (c # cs)"
    using ds b by (auto simp: word_boundary_def isWordChar_digit)
  have tp: "\<not> thousands_position before (c # cs)"
    unfolding thousands_position_def using wb by simp
  have r: "insert_separators sep (before @ [c]) cs
       = (if cs \<noteq> [] \<and> length cs mod 3 = 0 then sep else []) @ separated sep cs"
    by (rule insert_separators_digits [OF assms(1)]) (use ds in simp_all)
  show ?thesis
    unfolding insert_separators.simps r using tp by simp
qed

lemma insert_separators_whole:
  assumes "CHR ''$'' \<notin> set sep" and ds: "list_all isDigit ds" and ne: "ds \<noteq> []"
  shows "insert_separators sep [] ds = separated sep ds"
    and "insert_separators sep [] (CHR ''-'' # ds) = CHR ''-'' # separated sep ds"
proof -
  from ne obtain c cs where d: "ds = c # cs" by (cases ds) auto
  show "insert_separators sep [] ds = separated sep ds"
    unfolding d by (rule insert_separators_first [OF assms(1)]) (use ds d in simp_all)
  have m: "\<not> isWordChar (CHR ''-'')" by (simp add: isWordChar_def isDigit_def isLetter_def)
  have tp: "\<not> thousands_position [] (CHR ''-'' # ds)"
    by (simp add: thousands_position_def isDigit_def)
  have "insert_separators sep ([] @ ''-'') (c # cs) = separated sep (c # cs)"
    by (rule insert_separators_first [OF assms(1)]) (use ds d m in simp_all)
  then show "insert_separators sep [] (CHR ''-'' # ds) = CHR ''-'' # separated sep ds"
    using tp d by simp
qed

lemma separated_short: "length ds \<le> 3 \<Longrightarrow> separated sep ds = ds"
proof (induction ds)
  case Nil
  then show ?case by simp
next
  case (Cons c cs)
  then have "length cs < 3" by simp
  then have "\<not> (cs \<noteq> [] \<and> length cs mod 3 = 0)" by auto
  then show ?case using Cons by simp
qed

lemma separated_last_three:
  "length ys = 3 \<Longrightarrow> xs \<noteq> [] \<Longrightarrow> separated sep (xs @ ys) = separated sep xs @ sep @ ys"
proof (induction xs)
  case Nil
  then show ?case by simp
next
  case (Cons x xs)
  show ?case
  proof (cases "xs = []")
    case True
    have "ys \<noteq> []" using Cons.prems(1) by auto
    then show ?thesis using True Cons.prems(1) by (simp add: separated_short)
  next
    case False
    from Cons.IH [OF Cons.prems(1) False] show ?thesis
      using Cons.prems(1) False by simp
  qed
qed

lemma separated_group_by_three: "separated sep ds = group_by_three sep ds"
proof (induction sep ds rule: group_by_three.induct)
  case (1 sep ds)
  show ?case
  proof (cases "length ds \<le> 3")
    case True
    then show ?thesis by (simp add: separated_short group_by_three.simps [of sep ds])
  next
    case False
    let ?xs = "take (length ds - 3) ds" and ?ys = "drop (length ds - 3) ds"
    have l: "length ?ys = 3" "?xs \<noteq> []" using False by auto
    have "separated sep (?xs @ ?ys) = separated sep ?xs @ sep @ ?ys"
      by (rule separated_last_three [OF l])
    then have "separated sep ds = group_by_three sep ?xs @ sep @ ?ys"
      using 1 [OF False] by simp
    then show ?thesis using False by (simp add: group_by_three.simps [of sep ds])
  qed
qed

lemma formatNumber_spec_format:
  assumes d: "0 \<le> d" "d \<le> 100"
    and v: "\<bar>v\<bar> < 10 ^ 21"
    and sep: "CHR ''$'' \<notin> set (separator cfg)"
  shows "formatNumber cfg (Fin v) d grouped = Inr (spec_format cfg v (nat d) grouped)"
proof -
  let ?n = "round_half_away v (nat d)"
  let ?whole = "digit_string (?n div 10 ^ nat d)"
  let ?frac = "fraction_digits (nat d) ?n"
  let ?sign = "if v < 0 then ''-'' else []"
  define S where "S = ?sign @ ?whole"
  define G where "G = ?sign @ group_by_three (separator cfg) ?whole"
  define T where "T = (if nat d = 0 then [] else CHR ''.'' # ?frac)"
  define ps where "ps = (if nat d = 0 then [] else [?frac])"
  have fd: "fixed_digits \<bar>v\<bar> (nat d) = ?whole @ T"
    unfolding round_half_away_def T_def by (rule fixed_digits_layout) simp
  have tf: "toFixed (Fin v) d = Inr (S @ T)"
    using d v by (simp add: toFixed_def fd S_def)
  have w: "list_all isDigit ?whole" "?whole \<noteq> []"
    by (rule digit_string_digits, rule digit_string_nonempty)
  have np: "CHR ''.'' \<notin> set S" "CHR ''.'' \<notin> set ?frac"
    using digits_no_point [OF w(1)] digits_no_point [OF fraction_digits_digits [of "nat d" ?n]]
    by (auto simp: S_def)
  have ins: "insert_separators (separator cfg) [] S = G"
    using insert_separators_whole [OF sep w] by (simp add: separated_group_by_three S_def G_def)
  have sp: "split_on CHR ''.'' (S @ T) = S # ps"
  proof (cases "nat d = 0")
    case True
    then show ?thesis using split_on_none [OF np(1)] by (simp add: T_def ps_def)
  next
    case False
    have "split_on CHR ''.'' (S @ CHR ''.'' # ?frac) = S # split_on CHR ''.'' ?frac"
      by (rule split_on_first [OF np(1)])
    then show ?thesis using False split_on_none [OF np(2)] by (simp add: T_def ps_def)
  qed
  have jn: "join_with CHR ''.'' (G # ps) = G @ T"
    by (simp add: T_def ps_def)
  have plain: "spec_format cfg v (nat d) False = prefix cfg @ (S @ T) @ suffix cfg"
    by (simp add: spec_format_def Let_def S_def T_def)
  have grp: "spec_format cfg v (nat d) True = prefix cfg @ (G @ T) @ suffix cfg"
    by (simp add: spec_format_def Let_def G_def T_def)
  show ?thesis
  proof (cases grouped)
    case False
    then show ?thesis by (simp add: plain formatNumber_def tf)
  next
    case True
    then show ?thesis by (simp add: grp formatNumber_def tf sp ins jn del: split_on.simps)
  qed
qed

text \<open>
  Claim C8, as the code has it. For a finite value below \<open>10\<^sup>2\<^sup>1\<close> in magnitude, a
  number of decimals from 0 to 100 and a separator without a dollar sign, \<open>formatNumber\<close>
  returns the rendering of the specification: the value rounded half away from zero to
  the decimals, the separator every three digits of the integer part when grouping is
  on, prefix and suffix around it.
\<close>

theorem format_in_range:
  assumes "0 \<le> d" "d \<le> 100" "\<bar>v\<bar> < 10 ^ 21" "CHR ''$'' \<notin> set (separator cfg)"
  shows "formatNumber cfg (Fin v) d grouped = Inr (spec_format cfg v (nat d) grouped)"
  using assms by (rule formatNumber_spec_format)

lemma format_example:
  "spec_format defaults (2469 / 2) (Suc 0) True = ''1,234.5''"
  "CHR ''$'' \<notin> set (separator defaults)"
  by code_simp+

text \<open>
  The example of the specification: 1234.5 with one decimal, grouped, under the
  defaults, is \<open>1,234.5\<close>.
\<close>

theorem format_in_range_witness:
  "(0::int) \<le> 1 \<and> (1::int) \<le> 100 \<and> \<bar>2469 / 2 :: real\<bar> < 10 ^ 21
   \<and> CHR ''$'' \<notin> set (separator defaults)
   \<and> formatNumber defaults (Fin (2469 / 2)) 1 True = Inr ''1,234.5''"
  using format_in_range [of 1 "2469 / 2" defaults True]
  by (simp add: format_example)

text \<open>
  Outside these conditions: the separator \<open>$&\<close> is a replacement pattern and inserts
  nothing; \<open>10\<^sup>2\<^sup>1\<close> prints in exponent form, neither rounded to the decimals nor
  grouped; 101 decimals raise a \<open>RangeError\<close>.
\<close>

theorem format_out_of_range:
  "formatNumber (defaults\<lparr> separator := ''$&'' \<rparr>) (Fin (2469 / 2)) 1 True = Inr ''1234.5''
   \<and> spec_format (defaults\<lparr> separator := ''$&'' \<rparr>) (2469 / 2) 1 True = ''1$&234.5''
   \<and> formatNumber defaults (Fin (10 ^ 21)) 2 True = Inr ''1e+21''
   \<and> spec_format defaults (10 ^ 21) 2 True = ''1,000,000,000,000,000,000,000.00''
   \<and> formatNumber defaults (Fin (2469 / 2)) 101 True = Inl RangeError"
  by code_simp

section \<open>Parsing and formatting again\<close>

lemma parseValue_accepts:
  assumes "parseValue cfg x = Inr (Some p)"
  shows "number p = to_double (source_value cfg x)"
    and "hasComma p = str_includes x (separator cfg)"
    and "number_format (source_text cfg x)"
  using assms
  by (auto simp: parseValue_def source_value_def source_text_def Let_def parseFloat_def
           split: if_splits sum.splits)












section \<open>The separator as a regular expression\<close>

lemma parse_pattern_literal:
  "literal_separator sep \<Longrightarrow>
   parse_pattern sep cur alts = Inr (rev ((rev cur @ map Lit sep) # alts))"
proof (induction sep arbitrary: cur)
  case Nil
  then show ?case by simp
next
  case (Cons c r)
  then have c: "\<not> syntax_character c" and r: "literal_separator r"
    by (simp_all add: literal_separator_def)
  have "parse_pattern (c # r) cur alts = parse_pattern r (Lit c # cur) alts"
    using c by (simp add: syntax_character_def)
  then show ?case using Cons.IH [OF r, of "Lit c # cur"] by simp
qed

lemma RegExp_literal: "literal_separator sep \<Longrightarrow> RegExp sep = Inr [map Lit sep]"
  by (simp add: RegExp_def parse_pattern_literal)

lemma match_atoms_literal:
  "match_atoms (map Lit sep) s = (if startsWith s sep then Some (drop (length sep) s) else None)"
proof (induction sep arbitrary: s)
  case Nil
  then show ?case by (simp add: startsWith_def)
next
  case (Cons c r)
  show ?case
  proof (cases s)
    case Nil
    then show ?thesis by (simp add: startsWith_def)
  next
    case (Cons x xs)
    then show ?thesis using Cons.IH [of xs] by (auto simp: startsWith_def)
  qed
qed

lemma remove_matches_skip: "remove_matches rx k s = remove_matches rx 0 (drop k s)"
proof (induction k arbitrary: s)
  case 0
  then show ?case by simp
next
  case (Suc k)
  then show ?case by (cases s) simp_all
qed

lemma startsWith_length: "startsWith s p \<Longrightarrow> length p \<le> length s"
proof -
  assume "startsWith s p"
  then have "length p = length (take (length p) s)" by (simp add: startsWith_def)
  then show ?thesis by (simp add: min_def split: if_splits)
qed

text \<open>A separator without syntax characters: its matches are its literal occurrences.\<close>

lemma remove_matches_literal:
  "remove_matches [map Lit sep] 0 s = remove_literal sep s"
proof (induction sep s rule: remove_literal.induct)
  case (1 sep s)
  show ?case
  proof (cases s)
    case Nil
    then show ?thesis by (simp add: remove_literal.simps [of sep "[]"])
  next
    case (Cons x xs)
    show ?thesis
    proof (cases "sep \<noteq> [] \<and> startsWith s sep")
      case True
      then have l: "length sep \<le> length s" "0 < length sep"
        using startsWith_length by auto
      have ih: "remove_matches [map Lit sep] 0 (drop (length sep) s)
          = remove_literal sep (drop (length sep) s)"
        using 1(1) True Cons by simp
      have m: "match_alternatives [map Lit sep] (x # xs) = Some (drop (length sep) (x # xs))"
        using True Cons by (simp add: match_atoms_literal)
      obtain n where n: "length sep = Suc n" using l(2) by (cases "length sep") auto
      have nl: "n \<le> length xs" using l(1) Cons n by simp
      have ne: "length (drop (length sep) (x # xs)) \<noteq> length (x # xs)"
        unfolding n by simp
      have k: "drop (length xs - length (drop (length sep) (x # xs))) xs = drop (length sep) (x # xs)"
      proof -
        have "length xs - length (drop (length sep) (x # xs)) = n"
          unfolding n using nl by simp
        then show ?thesis using n by simp
      qed
      have "remove_matches [map Lit sep] 0 (x # xs)
          = remove_matches [map Lit sep] (length xs - length (drop (length sep) (x # xs))) xs"
        using m ne by simp
      also have "\<dots> = remove_matches [map Lit sep] 0 (drop (length sep) (x # xs))"
        using remove_matches_skip [of "[map Lit sep]" _ xs] k by simp
      finally show ?thesis
        using ih True Cons by (simp add: remove_literal.simps [of sep "x # xs"])
    next
      case False
      have ih: "remove_matches [map Lit sep] 0 xs = remove_literal sep xs"
        using 1(2) False Cons by simp
      show ?thesis
      proof (cases "sep = []")
        case True
        then show ?thesis using ih Cons
          by (simp add: remove_literal.simps [of "[]" "x # xs"])
      next
        case ne: False
        then have ns: "\<not> startsWith (x # xs) sep" using False Cons by simp
        then have m: "match_alternatives [map Lit sep] (x # xs) = None"
          by (simp add: match_atoms_literal)
        have "remove_literal sep (x # xs) = x # remove_literal sep xs"
          using ns by (simp add: remove_literal.simps [of sep "x # xs"])
        moreover have "remove_matches [map Lit sep] 0 (x # xs) = x # remove_matches [map Lit sep] 0 xs"
          using m by simp
        ultimately show ?thesis using ih Cons by simp
      qed
    qed
  qed
qed

text \<open>The separator \<open>.\<close> matches every character but a line terminator.\<close>

lemma RegExp_dot: "RegExp ''.'' = Inr [[AnyChar]]"
  by (simp add: RegExp_def)

lemma remove_matches_dot: "remove_matches [[AnyChar]] 0 s = filter line_terminator s"
  by (induction s) simp_all

lemma number_format_terminators: "\<not> number_format (filter line_terminator s)"
proof (cases "filter line_terminator s")
  case Nil
  then show ?thesis by (simp add: number_format_def strip_sign_def)
next
  case (Cons c r)
  then have "c \<in> set (filter line_terminator s)" by simp
  then have lt: "line_terminator c" by simp
  then have c: "c \<noteq> CHR ''-''" "c \<noteq> CHR ''+''" "\<not> isDigit c" "c \<noteq> CHR ''.''"
    by (auto simp: line_terminator_def isDigit_def)
  show ?thesis unfolding Cons using c
    by (simp add: number_format_def strip_sign_def Let_def)
qed

text \<open>The separator \<open>|\<close> matches the empty string, everywhere.\<close>

lemma RegExp_bar: "RegExp ''|'' = Inr [[], []]"
  by (simp add: RegExp_def)

lemma remove_matches_bar: "remove_matches [[], []] 0 s = s"
  by (induction s) simp_all

text \<open>
  Claim C10, as the code has it. \<open>parseValue\<close> sets \<open>hasComma\<close> by literal containment of
  the separator and removes the matches of the separator read as a regular expression.
  For a separator without syntax characters the matches are the literal occurrences.
  The separator \<open>.\<close> matches every character, so no text is accepted at all; the
  separator \<open>|\<close> matches only the empty string, so nothing is removed; the separator
  \<open>1.\<close> removes \<open>12\<close> from \<open>12345\<close>, which has no literal occurrence of it, and the
  parsed number is 345.
\<close>

theorem separator_as_expression:
  "(parseValue cfg x = Inr (Some p) \<longrightarrow> hasComma p = str_includes x (separator cfg))
   \<and> (literal_separator sep \<longrightarrow>
        (\<exists>rx. RegExp sep = Inr rx \<and> remove_matches rx 0 s = remove_literal sep s))
   \<and> (separator cfg = ''.'' \<longrightarrow> parseValue cfg x = Inr None)
   \<and> (\<exists>rx. RegExp ''|'' = Inr rx \<and> remove_matches rx 0 s = s)
   \<and> parseValue (defaults\<lparr> separator := ''1.'' \<rparr>) ''12345''
        = Inr (Some \<lparr> number = Fin 345, parsed_decimals = 0, hasComma = False \<rparr>)
   \<and> remove_literal ''1.'' ''12345'' = ''12345''"
proof -
  have a: "hasComma p = str_includes x (separator cfg)" if "parseValue cfg x = Inr (Some p)"
    using parseValue_accepts(2) [OF that] .
  have b: "\<exists>rx. RegExp sep = Inr rx \<and> remove_matches rx 0 s = remove_literal sep s"
    if "literal_separator sep"
    using RegExp_literal [OF that] remove_matches_literal [of sep s] by simp
  have c: "parseValue cfg x = Inr None" if "separator cfg = ''.''"
    using that number_format_terminators
    by (simp add: parseValue_def Let_def RegExp_dot remove_matches_dot)
  have d: "\<exists>rx. RegExp ''|'' = Inr rx \<and> remove_matches rx 0 s = s"
    by (simp add: RegExp_bar remove_matches_bar)
  have e: "parseValue (defaults\<lparr> separator := ''1.'' \<rparr>) ''12345''
        = Inr (Some \<lparr> number = Fin 345, parsed_decimals = 0, hasComma = False \<rparr>)"
    by code_simp
  have f: "remove_literal ''1.'' ''12345'' = ''12345''" by code_simp
  show ?thesis using a b c d e f by blast
qed

lemma separator_examples:
  "parseValue defaults ''1,500''
     = Inr (Some \<lparr> number = Fin 1500, parsed_decimals = 0, hasComma = True \<rparr>)"
  "str_includes ''1,500'' (separator defaults)"
  "literal_separator '',''"
  "remove_literal '','' ''1,500'' = ''1500''"
  "separator (defaults\<lparr> separator := ''.'' \<rparr>) = ''.''"
  by code_simp+

text \<open>
  Under the defaults the comma is a literal separator and \<open>1,500\<close> loses its comma;
  with the separator \<open>.\<close> the text \<open>1.500\<close> is rejected.
\<close>

theorem separator_as_expression_witness:
  "parseValue defaults ''1,500''
     = Inr (Some \<lparr> number = Fin 1500, parsed_decimals = 0, hasComma = True \<rparr>)
   \<and> str_includes ''1,500'' (separator defaults)
   \<and> literal_separator '',''
   \<and> (\<exists>rx. RegExp '','' = Inr rx \<and> remove_matches rx 0 ''1,500'' = ''1500'')
   \<and> parseValue (defaults\<lparr> separator := ''.'' \<rparr>) ''1.500'' = Inr None"
  using separator_as_expression [of defaults "''1,500''"
      "\<lparr> number = Fin 1500, parsed_decimals = 0, hasComma = True \<rparr>" "'',''" "''1,500''"]
    separator_as_expression [of "defaults\<lparr> separator := ''.'' \<rparr>" "''1.500''"]
  by (simp add: separator_examples)

text \<open>
  A separator with a syntax character need not strip anything that is no literal
  occurrence, and need not give a number that differs: with \<open>|\<close> the text \<open>1|500\<close>
  keeps every character and is rejected; with \<open>.\<close> every text is rejected, one without a
  point too; \<open>+\<close> does not compile.
\<close>

theorem separator_strips_nothing:
  "source_text (defaults\<lparr> separator := ''|'' \<rparr>) ''1|500'' = ''1|500''
   \<and> str_includes ''1|500'' ''|''
   \<and> parseValue (defaults\<lparr> separator := ''|'' \<rparr>) ''1|500'' = Inr None
   \<and> parseValue (defaults\<lparr> separator := ''.'' \<rparr>) ''1.500'' = Inr None
   \<and> parseValue (defaults\<lparr> separator := ''.'' \<rparr>) ''1500'' = Inr None
   \<and> parseValue (defaults\<lparr> separator := ''+'' \<rparr>) ''1500'' = Inl SyntaxError"
  by code_simp

end
